theory Spec2Isabelle
  imports Main
begin

section \<open>Layer wrappers of keras/layers/wrappers.py\<close>

text \<open>
  The module defines \<^verbatim>\<open>Wrapper\<close> and its two subclasses \<^verbatim>\<open>TimeDistributed\<close> and
  \<^verbatim>\<open>Bidirectional\<close>. The wrappers own inner layers, which are objects of the engine;
  several names may refer to one layer object, so layer objects live in a store and
  the wrappers hold references into it.
\<close>

subsection \<open>Python values and errors\<close>

datatype py_error =
    ValueError string
  | KeyError string
  | AttributeError string
  | IndexError
  | TypeError
  | AssertionError
  | Exception string

text \<open>
  The values that pass through the wrappers: configuration entries, keyword arguments,
  weight lists. \<open>PArray\<close> is a numeric array, given by its entries in order. \<open>PObj\<close> is
  any other object, one with Python's default truth value and no length (a backend
  variable, a symbolic tensor).
\<close>

datatype pyval =
    PNone
  | PBool bool
  | PInt int
  | PStr string
  | PList "pyval list"
  | PArray "int list"
  | PObj nat

text \<open>
  Python's truth test, as \<^verbatim>\<open>if v:\<close> and \<^verbatim>\<open>not v\<close> run it. An array with more than one
  entry refuses the test.
\<close>

definition array_truth_msg :: string where
  "array_truth_msg =
     ''The truth value of an array with more than one element is ambiguous. Use a.any() or a.all()''"

fun py_bool :: "pyval \<Rightarrow> py_error + bool" where
  "py_bool PNone = Inr False"
| "py_bool (PBool b) = Inr b"
| "py_bool (PInt i) = Inr (i \<noteq> 0)"
| "py_bool (PStr s) = Inr (s \<noteq> [])"
| "py_bool (PList xs) = Inr (xs \<noteq> [])"
| "py_bool (PArray []) = Inr False"
| "py_bool (PArray [x]) = Inr (x \<noteq> 0)"
| "py_bool (PArray (x # y # zs)) = Inl (ValueError array_truth_msg)"
| "py_bool (PObj _) = Inr True"

text \<open>A value is truthy when the test returns \<^verbatim>\<open>True\<close>.\<close>

definition truthy :: "pyval \<Rightarrow> bool" where
  "truthy v = (py_bool v = Inr True)"

text \<open>
  \<^verbatim>\<open>len(v)\<close>, which raises on a value that is no sequence, and the slices \<^verbatim>\<open>v[:k]\<close>
  and \<^verbatim>\<open>v[k:]\<close> for a non-negative \<open>k\<close>. The code slices only a value whose length it
  has taken, so the last equation of each slice is never reached.
\<close>

fun py_len :: "pyval \<Rightarrow> py_error + nat" where
  "py_len (PList xs) = Inr (length xs)"
| "py_len (PStr s) = Inr (length s)"
| "py_len (PArray xs) = Inr (length xs)"
| "py_len _ = Inl TypeError"

fun py_upto :: "nat \<Rightarrow> pyval \<Rightarrow> pyval" where
  "py_upto k (PList xs) = PList (take k xs)"
| "py_upto k (PStr s) = PStr (take k s)"
| "py_upto k (PArray xs) = PArray (take k xs)"
| "py_upto k v = v"

fun py_from :: "nat \<Rightarrow> pyval \<Rightarrow> pyval" where
  "py_from k (PList xs) = PList (drop k xs)"
| "py_from k (PStr s) = PStr (drop k s)"
| "py_from k (PArray xs) = PArray (drop k xs)"
| "py_from k v = v"

subsection \<open>Shapes\<close>

text \<open>
  A shape is a tuple of axis sizes, \<^verbatim>\<open>None\<close> for an unknown size. A wrapper receives
  either one shape (a tuple) or a list of shapes; the code tells them apart with
  \<^verbatim>\<open>type(input_shape) == list\<close>.
\<close>

type_synonym dim = "int option"
type_synonym shape = "dim list"

datatype shapes = Shape shape | Shapes "shape list"

text \<open>\<^verbatim>\<open>xs[i]\<close> for \<open>i \<ge> 0\<close>: an index out of range raises.\<close>

definition item :: "'a list \<Rightarrow> nat \<Rightarrow> py_error + 'a" where
  "item xs i = (if i < length xs then Inr (xs ! i) else Inl IndexError)"

text \<open>\<^verbatim>\<open>[shape[i] for shape in input_shape]\<close>\<close>

fun all_items :: "nat \<Rightarrow> 'a list list \<Rightarrow> py_error + 'a list" where
  "all_items i [] = Inr []"
| "all_items i (s # ss) =
     (case item s i of
        Inl e \<Rightarrow> Inl e
      | Inr d \<Rightarrow> (case all_items i ss of Inl e \<Rightarrow> Inl e | Inr ds \<Rightarrow> Inr (d # ds)))"

text \<open>\<^verbatim>\<open>max(xs)\<close> on a list of integers.\<close>

fun py_max :: "int list \<Rightarrow> py_error + int" where
  "py_max [] = Inl (ValueError ''max() arg is an empty sequence'')"
| "py_max (x # xs) = Inr (foldl max x xs)"

text \<open>\<^verbatim>\<open>(shape[0],) + shape[2:]\<close>: the shape without its axis 1.\<close>

definition child_shape :: "shape \<Rightarrow> py_error + shape" where
  "child_shape s = (case s of [] \<Rightarrow> Inl IndexError | d # _ \<Rightarrow> Inr (d # drop 2 s))"

fun child_shapes :: "shape list \<Rightarrow> py_error + shape list" where
  "child_shapes [] = Inr []"
| "child_shapes (s # ss) =
     (case child_shape s of
        Inl e \<Rightarrow> Inl e
      | Inr c \<Rightarrow> (case child_shapes ss of Inl e \<Rightarrow> Inl e | Inr cs \<Rightarrow> Inr (c # cs)))"

subsection \<open>Layer objects and the store\<close>

text \<open>
  A layer's configuration is a dictionary; the entry \<^verbatim>\<open>'name'\<close> is always there, the
  others depend on the layer's class.
\<close>

type_synonym kwargs = "string \<rightharpoonup> pyval"

record config =
  cfg_name :: string
  cfg_params :: kwargs

record layer =
  class_name :: string
  name :: string
  params :: kwargs
  initial_weights :: "pyval option"
  weight_values :: "pyval list"
  built :: bool
  trainable_weights :: "pyval list option"
  non_trainable_weights :: "pyval list option"
  updates :: "pyval list option"
  losses :: "pyval list option"
  constraints :: "(pyval \<times> pyval) list option"

text \<open>The store: a reference is an index, a new object goes to the end.\<close>

type_synonym ref = nat
type_synonym store = "layer list"

text \<open>
  Modelled from the spec: \<^verbatim>\<open>Layer.get_config\<close> and \<^verbatim>\<open>Layer.from_config\<close> of the engine,
  which are not part of this module. The configuration of a layer is its current name
  together with its constructor arguments, and \<^verbatim>\<open>from_config\<close> constructs a new,
  unbuilt layer of the class from such a configuration.
\<close>

definition Layer_get_config :: "layer \<Rightarrow> config" where
  "Layer_get_config l = \<lparr>cfg_name = name l, cfg_params = params l\<rparr>"

definition Layer_from_config :: "string \<Rightarrow> config \<Rightarrow> layer" where
  "Layer_from_config cls c =
     \<lparr>class_name = cls, name = cfg_name c, params = cfg_params c,
      initial_weights = None, weight_values = [], built = False,
      trainable_weights = None, non_trainable_weights = None,
      updates = None, losses = None, constraints = None\<rparr>"

text \<open>
  Modelled from the spec: the attributes \<^verbatim>\<open>stateful\<close>, \<^verbatim>\<open>return_sequences\<close> and
  \<^verbatim>\<open>go_backwards\<close> of a recurrent layer are its constructor arguments of these names;
  a layer of a class without them has no such attribute.
\<close>

definition getattr :: "layer \<Rightarrow> string \<Rightarrow> py_error + pyval" where
  "getattr l a = (case params l a of None \<Rightarrow> Inl (AttributeError a) | Some v \<Rightarrow> Inr v)"

subsection \<open>TimeDistributed\<close>

record time_distributed =
  td_layer :: ref
  td_uses_learning_phase :: bool
  td_supports_masking :: bool
  td_base_config :: kwargs
  td_input_spec :: "shape list"
  td_trainable_weights :: "pyval list"
  td_non_trainable_weights :: "pyval list"
  td_updates :: "pyval list"
  td_losses :: "pyval list"
  td_constraints :: "(pyval \<times> pyval) list"

text \<open>
  \<^verbatim>\<open>TimeDistributed.get_output_shape_for\<close>. The inner layer's own
  \<^verbatim>\<open>get_output_shape_for\<close> belongs to the engine and is the parameter \<open>shp\<close>.
\<close>

definition timesteps_of :: "shape list \<Rightarrow> py_error + dim" where
  "timesteps_of input_shape =
     (case all_items 1 input_shape of
        Inl e \<Rightarrow> Inl e
      | Inr all_timesteps \<Rightarrow>
          if None \<in> set all_timesteps then Inr None
          else (case py_max (map the all_timesteps) of
                  Inl e \<Rightarrow> Inl e
                | Inr m \<Rightarrow> Inr (Some m)))"

definition reattach :: "shape \<Rightarrow> dim \<Rightarrow> py_error + shape" where
  "reattach child_output_shape timesteps =
     (case child_output_shape of
        [] \<Rightarrow> Inl IndexError
      | b # rest \<Rightarrow> Inr (b # timesteps # rest))"

definition TimeDistributed_get_output_shape_for ::
  "(layer \<Rightarrow> shapes \<Rightarrow> shape) \<Rightarrow> store \<Rightarrow> time_distributed \<Rightarrow> shapes \<Rightarrow> py_error + shape"
where
  "TimeDistributed_get_output_shape_for shp h w input_shape =
     (case input_shape of
        Shapes ss \<Rightarrow>
          (case timesteps_of ss of
             Inl e \<Rightarrow> Inl e
           | Inr timesteps \<Rightarrow>
               (case child_shapes ss of
                  Inl e \<Rightarrow> Inl e
                | Inr child_input_shape \<Rightarrow>
                    reattach (shp (h ! td_layer w) (Shapes child_input_shape)) timesteps))
      | Shape s \<Rightarrow>
          (case child_shape s of
             Inl e \<Rightarrow> Inl e
           | Inr child_input_shape \<Rightarrow>
               (case item s 1 of
                  Inl e \<Rightarrow> Inl e
                | Inr timesteps \<Rightarrow>
                    reattach (shp (h ! td_layer w) (Shape child_input_shape)) timesteps)))"

text \<open>
  \<^verbatim>\<open>TimeDistributed.compute_mask(self, input, input_mask)\<close>. A mask is an indicator
  tensor over (samples, timesteps); \<^verbatim>\<open>input_mask\<close> is one mask (possibly \<^verbatim>\<open>None\<close>) or
  a list of them. The method uses neither \<^verbatim>\<open>self\<close> nor \<^verbatim>\<open>input\<close>.
\<close>

datatype tensor = Scalar int | Vector "int list" | Matrix "int list list"

datatype mask_arg = Mask "tensor option" | Masks "tensor option list"

fun matrix_of :: "tensor option \<Rightarrow> int list list option" where
  "matrix_of (Some (Matrix m)) = Some m"
| "matrix_of _ = None"

fun vector_of :: "tensor option \<Rightarrow> int list option" where
  "vector_of (Some (Vector v)) = Some v"
| "vector_of _ = None"

text \<open>
  Modelled from the spec: the backend primitives \<^verbatim>\<open>K.concatenate\<close>, which joins
  tensors along the last axis unless told otherwise, and \<^verbatim>\<open>K.prod\<close>, the product
  reduction along the given axis. They are not part of this module. A list holding
  something that is not a tensor, or tensors that do not fit, is refused.
\<close>

definition K_concatenate :: "tensor option list \<Rightarrow> py_error + tensor" where
  "K_concatenate ts =
     (if ts = [] then Inl (Exception ''concatenate'')
      else (case those (map matrix_of ts) of
              Some ms \<Rightarrow>
                if \<forall>m \<in> set ms. length m = length (hd ms)
                then Inr (Matrix (map (\<lambda>i. concat (map (\<lambda>m. m ! i) ms)) [0..<length (hd ms)]))
                else Inl (Exception ''concatenate'')
            | None \<Rightarrow>
                (case those (map vector_of ts) of
                   Some vs \<Rightarrow> Inr (Vector (concat vs))
                 | None \<Rightarrow> Inl (Exception ''concatenate''))))"

fun K_prod_axis0 :: "tensor \<Rightarrow> py_error + tensor" where
  "K_prod_axis0 (Scalar x) = Inl (Exception ''prod'')"
| "K_prod_axis0 (Vector v) = Inr (Scalar (prod_list v))"
| "K_prod_axis0 (Matrix m) =
     (case m of
        [] \<Rightarrow> Inr (Vector [])
      | r # rs \<Rightarrow>
          if \<forall>r' \<in> set rs. length r' = length r
          then Inr (Vector (map (\<lambda>j. prod_list (map (\<lambda>row. row ! j) m)) [0..<length r]))
          else Inl (Exception ''prod''))"

text \<open>
  \<^verbatim>\<open>any(input_mask)\<close> asks each entry for its truth value: \<^verbatim>\<open>None\<close> is false, a
  tensor object is true.
\<close>

definition TimeDistributed_compute_mask :: "mask_arg \<Rightarrow> py_error + tensor option" where
  "TimeDistributed_compute_mask input_mask =
     (case input_mask of
        Mask m \<Rightarrow> Inr m
      | Masks ms \<Rightarrow>
          if \<not> list_ex (\<lambda>m. m \<noteq> None) ms then Inr None
          else
            let not_None_masks = filter (\<lambda>m. m \<noteq> None) ms in
            if length not_None_masks = 1 then Inr (hd not_None_masks)
            else (case K_concatenate ms of
                    Inl e \<Rightarrow> Inl e
                  | Inr c \<Rightarrow>
                      (case K_prod_axis0 c of
                         Inl e \<Rightarrow> Inl e
                       | Inr p \<Rightarrow> Inr (Some p))))"

text \<open>
  The combination the specification describes for two or more present masks: their
  elementwise logical AND, the product of the stacked masks along the new axis.
\<close>

definition mask_and :: "int list list \<Rightarrow> int list list \<Rightarrow> int list list" where
  "mask_and a b = map2 (map2 (*)) a b"

definition spec_combined_mask :: "int list list list \<Rightarrow> int list list" where
  "spec_combined_mask ms = foldl mask_and (hd ms) (tl ms)"

text \<open>
  \<^verbatim>\<open>Wrapper.__init__\<close> and \<^verbatim>\<open>TimeDistributed.__init__\<close>. Whether the inner layer uses
  the learning phase is decided by the engine: the parameter \<open>ulp\<close>.

  Modelled from the spec: the base class \<^verbatim>\<open>Layer\<close> of the engine, which is not part of
  this module. It receives the keyword arguments, and its \<^verbatim>\<open>get_config\<close> returns them as
  the wrapper's own configuration entries.
\<close>

definition TimeDistributed_init ::
  "(layer \<Rightarrow> bool) \<Rightarrow> store \<Rightarrow> ref \<Rightarrow> kwargs \<Rightarrow> time_distributed"
where
  "TimeDistributed_init ulp h l kw =
     \<lparr>td_layer = l, td_uses_learning_phase = ulp (h ! l), td_supports_masking = True,
      td_base_config = kw, td_input_spec = [],
      td_trainable_weights = [], td_non_trainable_weights = [], td_updates = [],
      td_losses = [], td_constraints = []\<rparr>"

text \<open>\<^verbatim>\<open>Wrapper.build\<close>: \<^verbatim>\<open>getattr(self.layer, a, default)\<close> for each collection.\<close>

definition Wrapper_build :: "store \<Rightarrow> time_distributed \<Rightarrow> time_distributed" where
  "Wrapper_build h w =
     (let l = h ! td_layer w in
      w\<lparr>td_trainable_weights := (case trainable_weights l of None \<Rightarrow> [] | Some x \<Rightarrow> x),
        td_non_trainable_weights := (case non_trainable_weights l of None \<Rightarrow> [] | Some x \<Rightarrow> x),
        td_updates := (case updates l of None \<Rightarrow> [] | Some x \<Rightarrow> x),
        td_losses := (case losses l of None \<Rightarrow> [] | Some x \<Rightarrow> x),
        td_constraints := (case constraints l of None \<Rightarrow> [] | Some x \<Rightarrow> x)\<rparr>)"

text \<open>
  The statements \<^verbatim>\<open>if not self.layer.built: self.layer.build(...); self.layer.built = True\<close>,
  with the inner layer's \<^verbatim>\<open>build\<close> as the parameter \<open>bld\<close>.
\<close>

definition build_inner ::
  "(layer \<Rightarrow> shapes \<Rightarrow> layer) \<Rightarrow> store \<Rightarrow> ref \<Rightarrow> shapes \<Rightarrow> store"
where
  "build_inner bld h r child_input_shape =
     (if \<not> built (h ! r) then h[r := (bld (h ! r) child_input_shape)\<lparr>built := True\<rparr>] else h)"

text \<open>
  \<^verbatim>\<open>TimeDistributed.build\<close>. One shape is treated as a list of one; every shape must
  have rank 3 at least; the inner layer is built, if it is not yet, on the child shape
  (one input) or on the list of child shapes. The inner layer's \<^verbatim>\<open>build\<close> (\<open>bld\<close>) is a
  parameter. The method does not look at the backend.
\<close>

definition TimeDistributed_build ::
  "(layer \<Rightarrow> shapes \<Rightarrow> layer) \<Rightarrow> store \<Rightarrow> time_distributed \<Rightarrow> shapes
     \<Rightarrow> (store \<times> time_distributed) \<times> (py_error + unit)"
where
  "TimeDistributed_build bld h w input_shape =
     (let input_shape = (case input_shape of Shape s \<Rightarrow> [s] | Shapes ss \<Rightarrow> ss) in
      if \<not> list_all (\<lambda>shape. length shape \<ge> 3) input_shape then ((h, w), Inl AssertionError)
      else
        let w1 = w\<lparr>td_input_spec := input_shape\<rparr> in
        (case child_shapes input_shape of
           Inl e \<Rightarrow> ((h, w1), Inl e)
         | Inr child_input_shape \<Rightarrow>
             let child_input_shape =
                   (if length input_shape = 1 then Shape (hd child_input_shape)
                    else Shapes child_input_shape);
                 h1 = build_inner bld h (td_layer w1) child_input_shape
             in ((h1, Wrapper_build h1 w1), Inr ())))"

text \<open>
  \<^verbatim>\<open>TimeDistributed.get_output(self, train)\<close>. It starts with
  \<^verbatim>\<open>self.get_input(train)\<close> and \<^verbatim>\<open>self.get_input_mask(train)\<close>, two methods that this
  module does not define and expects from the base class: the parameters \<open>get_input\<close>
  and \<open>get_input_mask\<close>. It does not use what they return. The name of the backend
  (\<^verbatim>\<open>K._BACKEND\<close>) and the inner layer's \<^verbatim>\<open>build\<close> (\<open>bld\<close>) are parameters too. The method
  assigns \<^verbatim>\<open>self.input_spec\<close> before it tests the shape, so the wrapper is returned also
  when the method raises.
\<close>

definition timesteps_msg :: string where
  \<open>timesteps_msg =
     ''When using TensorFlow, you should define explicitly the number of timesteps of your sequences.''
     @ [CHR 0x0A]
     @ ''If your first layer is an Embedding, make sure to pass it an "input_length" argument. ''
     @ ''Otherwise, make sure the first layer has an "input_shape" or "batch_input_shape" argument, ''
     @ ''including the time axis.''\<close>

text \<open>\<^verbatim>\<open>not d\<close> for an axis size.\<close>

definition not_dim :: "dim \<Rightarrow> bool" where
  "not_dim d = (case d of None \<Rightarrow> True | Some n \<Rightarrow> n = 0)"

definition TimeDistributed_get_output ::
  "string \<Rightarrow> (bool \<Rightarrow> py_error + pyval) \<Rightarrow> (bool \<Rightarrow> py_error + pyval)
     \<Rightarrow> (layer \<Rightarrow> shapes \<Rightarrow> layer) \<Rightarrow> store \<Rightarrow> time_distributed \<Rightarrow> bool
     \<Rightarrow> (store \<times> time_distributed) \<times> (py_error + unit)"
where
  "TimeDistributed_get_output backend get_input get_input_mask bld h w train =
     (case get_input train of
        Inl e \<Rightarrow> ((h, w), Inl e)
      | Inr X \<Rightarrow>
     (case get_input_mask train of
        Inl e \<Rightarrow> ((h, w), Inl e)
      | Inr mask' \<Rightarrow>
     (case item (td_input_spec w) 0 of
        Inl e \<Rightarrow> ((h, w), Inl e)
      | Inr input_shape \<Rightarrow>
          let w1 = w\<lparr>td_input_spec := [input_shape]\<rparr> in
          (case (if backend = ''tensorflow''
                 then (case item input_shape 1 of
                         Inl e \<Rightarrow> Inl e
                       | Inr t \<Rightarrow> if not_dim t then Inl (Exception timesteps_msg) else Inr ())
                 else Inr ()) of
             Inl e \<Rightarrow> ((h, w1), Inl e)
           | Inr _ \<Rightarrow>
               (case child_shape input_shape of
                  Inl e \<Rightarrow> ((h, w1), Inl e)
                | Inr child_input_shape \<Rightarrow>
                    let h1 = build_inner bld h (td_layer w1) (Shape child_input_shape) in
                    ((h1, Wrapper_build h1 w1), Inr ()))))))"

text \<open>
  Modelled from the spec: the base class \<^verbatim>\<open>Layer\<close> of the engine, which is not part of
  this module. The capabilities of a layer that the spec lists are \<^verbatim>\<open>build\<close>,
  \<^verbatim>\<open>call\<close>, \<^verbatim>\<open>output_shape\<close>, \<^verbatim>\<open>get_output_shape_for\<close>, \<^verbatim>\<open>get_weights\<close>, \<^verbatim>\<open>set_weights\<close>,
  \<^verbatim>\<open>get_config\<close>, \<^verbatim>\<open>from_config\<close> and its fields; \<^verbatim>\<open>get_input\<close> and
  \<^verbatim>\<open>get_input_mask\<close> are not among them, so asking a wrapper for either raises.
\<close>

definition Layer_get_input :: "bool \<Rightarrow> py_error + pyval" where
  "Layer_get_input train = Inl (AttributeError ''get_input'')"

definition Layer_get_input_mask :: "bool \<Rightarrow> py_error + pyval" where
  "Layer_get_input_mask train = Inl (AttributeError ''get_input_mask'')"

subsection \<open>Configurations of wrappers\<close>

text \<open>
  The dictionary \<^verbatim>\<open>Wrapper.get_config\<close> returns: under \<^verbatim>\<open>'layer'\<close> the inner layer's
  class name and configuration, and beside it the other entries.
\<close>

record wrapper_config =
  wc_class_name :: string
  wc_config :: config
  wc_rest :: kwargs

definition Wrapper_get_config :: "store \<Rightarrow> ref \<Rightarrow> kwargs \<Rightarrow> wrapper_config" where
  "Wrapper_get_config h l base_config =
     \<lparr>wc_class_name = class_name (h ! l), wc_config = Layer_get_config (h ! l),
      wc_rest = base_config(''layer'' := None)\<rparr>"

definition TimeDistributed_get_config :: "store \<Rightarrow> time_distributed \<Rightarrow> wrapper_config" where
  "TimeDistributed_get_config h w = Wrapper_get_config h (td_layer w) (td_base_config w)"

text \<open>
  Modelled from the spec: \<^verbatim>\<open>layer_from_config\<close> of the utilities, which are not part of
  this module. It reconstructs the inner layer from its nested entry, as a new object
  of the named class.
\<close>

definition layer_from_config :: "store \<Rightarrow> wrapper_config \<Rightarrow> store \<times> ref" where
  "layer_from_config h c = (h @ [Layer_from_config (wc_class_name c) (wc_config c)], length h)"

text \<open>
  \<^verbatim>\<open>Wrapper.from_config\<close> for \<^verbatim>\<open>cls = TimeDistributed\<close>: the entries beside
  \<^verbatim>\<open>'layer'\<close> are the keyword arguments of the constructor.
\<close>

definition TimeDistributed_from_config ::
  "(layer \<Rightarrow> bool) \<Rightarrow> store \<Rightarrow> wrapper_config \<Rightarrow> store \<times> time_distributed"
where
  "TimeDistributed_from_config ulp h c =
     (case layer_from_config h c of
        (h1, l) \<Rightarrow> (h1, TimeDistributed_init ulp h1 l (wc_rest c)))"

subsection \<open>Bidirectional\<close>

record bidirectional =
  forward_layer :: ref
  backward_layer :: ref
  merge_mode :: pyval
  stateful :: pyval
  return_sequences :: pyval
  bi_supports_masking :: bool
  bi_layer :: ref
  bi_uses_learning_phase :: bool
  bi_base_config :: kwargs

definition merge_mode_msg :: string where
  \<open>merge_mode_msg =
     ''Invalid merge mode. Merge mode should be one of {"sum", "mul", "ave", "concat", None}''\<close>

text \<open>
  The block \<^verbatim>\<open>if weights: ...\<close> of the constructor: the first \<^verbatim>\<open>nw // 2\<close> entries
  become the initial weights of the forward layer \<open>f\<close>, the others those of the
  backward layer \<open>b\<close>. The truth test of \<^verbatim>\<open>weights\<close> and its \<^verbatim>\<open>len\<close> can raise.
\<close>

definition set_initial_weights ::
  "store \<Rightarrow> ref \<Rightarrow> ref \<Rightarrow> pyval \<Rightarrow> store \<times> (py_error + unit)"
where
  "set_initial_weights h f b weights =
     (case py_bool weights of
        Inl e \<Rightarrow> (h, Inl e)
      | Inr t \<Rightarrow>
          if t then
            (case py_len weights of
               Inl e \<Rightarrow> (h, Inl e)
             | Inr nw \<Rightarrow>
                 let h1 = h[f := (h ! f)\<lparr>initial_weights := Some (py_upto (nw div 2) weights)\<rparr>];
                     h2 = h1[b := (h1 ! b)\<lparr>initial_weights := Some (py_from (nw div 2) weights)\<rparr>]
                 in (h2, Inr ()))
          else (h, Inr ()))"

text \<open>
  \<^verbatim>\<open>Bidirectional.__init__(self, layer, merge_mode, weights, **kwargs)\<close>. The argument
  \<open>l\<close> refers to the caller's layer object. Statements that change the store come
  before statements that can raise, so the store is returned in both cases.
\<close>

definition Bidirectional_init ::
  "(layer \<Rightarrow> bool) \<Rightarrow> store \<Rightarrow> ref \<Rightarrow> pyval \<Rightarrow> pyval \<Rightarrow> kwargs
     \<Rightarrow> store \<times> (py_error + bidirectional)"
where
  "Bidirectional_init ulp h l mode weights kw =
     (if mode \<notin> set [PStr ''sum'', PStr ''mul'', PStr ''ave'', PStr ''concat'', PNone]
      then (h, Inl (ValueError merge_mode_msg))
      else
        let config = Layer_get_config (h ! l) in
        (case cfg_params config ''go_backwards'' of
           None \<Rightarrow> (h, Inl (KeyError ''go_backwards''))
         | Some gb \<Rightarrow>
           (case py_bool gb of
              Inl e \<Rightarrow> (h, Inl e)
            | Inr go_backwards \<Rightarrow>
             let config' = config\<lparr>cfg_params :=
                             (cfg_params config)(''go_backwards'' \<mapsto> PBool (\<not> go_backwards))\<rparr>;
                 b = length h;
                 h1 = h @ [Layer_from_config (class_name (h ! l)) config'];
                 h2 = h1[l := (h1 ! l)\<lparr>name := ''forward_'' @ name (h1 ! l)\<rparr>];
                 h3 = h2[b := (h2 ! b)\<lparr>name := ''backward_'' @ name (h2 ! b)\<rparr>]
             in
             (case set_initial_weights h3 l b weights of
                (h4, Inl e) \<Rightarrow> (h4, Inl e)
              | (h4, Inr _) \<Rightarrow>
                  (case getattr (h4 ! l) ''stateful'' of
                     Inl e \<Rightarrow> (h4, Inl e)
                   | Inr st \<Rightarrow>
                       (case getattr (h4 ! l) ''return_sequences'' of
                          Inl e \<Rightarrow> (h4, Inl e)
                        | Inr rs \<Rightarrow>
                            (h4, Inr \<lparr>forward_layer = l, backward_layer = b,
                                      merge_mode = mode, stateful = st,
                                      return_sequences = rs, bi_supports_masking = True,
                                      bi_layer = l,
                                      bi_uses_learning_phase = ulp (h4 ! l),
                                      bi_base_config = kw\<rparr>)))))))"

text \<open>
  Modelled from the spec: \<^verbatim>\<open>Layer.get_weights\<close> and \<^verbatim>\<open>Layer.set_weights\<close> of the
  engine. A layer holds a list of weight values; \<^verbatim>\<open>set_weights\<close> replaces them and
  refuses a list of another length.
\<close>

definition Layer_set_weights :: "layer \<Rightarrow> pyval list \<Rightarrow> py_error + layer" where
  "Layer_set_weights l ws =
     (if length ws \<noteq> length (weight_values l) then Inl (Exception ''set_weights'')
      else Inr (l\<lparr>weight_values := ws\<rparr>))"

definition Bidirectional_get_weights :: "store \<Rightarrow> bidirectional \<Rightarrow> pyval list" where
  "Bidirectional_get_weights h w =
     weight_values (h ! forward_layer w) @ weight_values (h ! backward_layer w)"

definition Bidirectional_set_weights ::
  "store \<Rightarrow> bidirectional \<Rightarrow> pyval list \<Rightarrow> store \<times> (py_error + unit)"
where
  "Bidirectional_set_weights h w ws =
     (let nw = length ws in
      (case Layer_set_weights (h ! forward_layer w) (take (nw div 2) ws) of
         Inl e \<Rightarrow> (h, Inl e)
       | Inr f \<Rightarrow>
           let h1 = h[forward_layer w := f] in
           (case Layer_set_weights (h1 ! backward_layer w) (drop (nw div 2) ws) of
              Inl e \<Rightarrow> (h1, Inl e)
            | Inr b \<Rightarrow> (h1[backward_layer w := b], Inr ()))))"

text \<open>
  \<^verbatim>\<open>Bidirectional.get_output_shape_for\<close>. A merge mode outside the three tests falls
  through the \<^verbatim>\<open>if\<close> and the method returns \<^verbatim>\<open>None\<close>. In the branch for
  \<^verbatim>\<open>'concat'\<close>, \<^verbatim>\<open>shape[-1] *= 2\<close> raises on an empty shape and on an unknown size.
\<close>

definition double_last :: "shape \<Rightarrow> py_error + shape" where
  "double_last s =
     (if s = [] then Inl IndexError
      else (case last s of
              None \<Rightarrow> Inl TypeError
            | Some n \<Rightarrow> Inr (butlast s @ [Some (n * 2)])))"

definition Bidirectional_get_output_shape_for ::
  "(layer \<Rightarrow> shapes \<Rightarrow> shape) \<Rightarrow> store \<Rightarrow> bidirectional \<Rightarrow> shapes
     \<Rightarrow> py_error + shapes option"
where
  "Bidirectional_get_output_shape_for shp h w input_shape =
     (if merge_mode w \<in> set [PStr ''sum'', PStr ''ave'', PStr ''mul'']
      then Inr (Some (Shape (shp (h ! forward_layer w) input_shape)))
      else if merge_mode w = PStr ''concat''
      then (case double_last (shp (h ! forward_layer w) input_shape) of
              Inl e \<Rightarrow> Inl e
            | Inr s \<Rightarrow> Inr (Some (Shape s)))
      else if merge_mode w = PNone
      then Inr (Some (Shapes (replicate 2 (shp (h ! forward_layer w) input_shape))))
      else Inr None)"

text \<open>
  \<^verbatim>\<open>Bidirectional.call\<close> builds an expression over symbolic tensors: the calls of the
  two inner layers and the backend operations applied to their results. The test
  \<^verbatim>\<open>if self.return_sequences:\<close> comes after the two calls and can raise. The
  constructors stand for \<^verbatim>\<open>layer.call(X, mask)\<close>, \<^verbatim>\<open>K.reverse(x, axis)\<close>,
  \<^verbatim>\<open>K.concatenate(xs, axis)\<close>, \<^verbatim>\<open>x + y\<close>, \<^verbatim>\<open>x * y\<close> and \<^verbatim>\<open>x / n\<close>.
\<close>

datatype tensor_expr =
    Var string
  | LayerCall ref tensor_expr "tensor_expr option"
  | Reverse tensor_expr int
  | Concatenate "tensor_expr list" int
  | Add tensor_expr tensor_expr
  | Mul tensor_expr tensor_expr
  | Div tensor_expr int

datatype call_output = Tensor tensor_expr | Tensors "tensor_expr list"

text \<open>
  Modelled from the spec: \<^verbatim>\<open>K.concatenate\<close> called without an axis joins along the
  last axis.
\<close>

definition K_concatenate_default :: "tensor_expr list \<Rightarrow> tensor_expr" where
  "K_concatenate_default xs = Concatenate xs (- 1)"

definition Bidirectional_call ::
  "bidirectional \<Rightarrow> tensor_expr \<Rightarrow> tensor_expr option \<Rightarrow> py_error + call_output option"
where
  "Bidirectional_call w X mask' =
     (let Y = LayerCall (forward_layer w) X mask';
          Y_rev = LayerCall (backward_layer w) X mask'
      in
      (case py_bool (return_sequences w) of
         Inl e \<Rightarrow> Inl e
       | Inr seqs \<Rightarrow>
           let Y_rev = (if seqs then Reverse Y_rev 1 else Y_rev) in
           if merge_mode w = PStr ''concat''
           then Inr (Some (Tensor (K_concatenate_default [Y, Y_rev])))
           else if merge_mode w = PStr ''sum'' then Inr (Some (Tensor (Add Y Y_rev)))
           else if merge_mode w = PStr ''ave'' then Inr (Some (Tensor (Div (Add Y Y_rev) 2)))
           else if merge_mode w = PStr ''mul'' then Inr (Some (Tensor (Mul Y Y_rev)))
           else if merge_mode w = PNone then Inr (Some (Tensors [Y, Y_rev]))
           else Inr None))"

text \<open>
  \<^verbatim>\<open>Bidirectional.get_config\<close>, and \<^verbatim>\<open>Wrapper.from_config\<close> for
  \<^verbatim>\<open>cls = Bidirectional\<close>: the entries \<^verbatim>\<open>'merge_mode'\<close> and \<^verbatim>\<open>'weights'\<close> of the
  dictionary, when present, are the constructor's arguments of these names, and the
  other entries its keyword arguments.
\<close>

definition Bidirectional_get_config :: "store \<Rightarrow> bidirectional \<Rightarrow> wrapper_config" where
  "Bidirectional_get_config h w =
     (let base_config = Wrapper_get_config h (bi_layer w) (bi_base_config w)
      in base_config\<lparr>wc_rest := (wc_rest base_config)(''merge_mode'' \<mapsto> merge_mode w)\<rparr>)"

definition Bidirectional_from_config ::
  "(layer \<Rightarrow> bool) \<Rightarrow> store \<Rightarrow> wrapper_config \<Rightarrow> store \<times> (py_error + bidirectional)"
where
  "Bidirectional_from_config ulp h c =
     (case layer_from_config h c of
        (h1, l) \<Rightarrow>
          Bidirectional_init ulp h1 l
            (case wc_rest c ''merge_mode'' of None \<Rightarrow> PStr ''concat'' | Some m \<Rightarrow> m)
            (case wc_rest c ''weights'' of None \<Rightarrow> PNone | Some ws \<Rightarrow> ws)
            ((wc_rest c)(''merge_mode'' := None, ''weights'' := None)))"

subsection \<open>Example objects\<close>

text \<open>
  A recurrent layer as the engine provides it, with its number of units and its
  \<^verbatim>\<open>return_sequences\<close> option, and the shape inference of the engine's recurrent
  layers: the last axis of the result is the number of units. They serve as concrete
  inputs below.
\<close>

definition no_learning_phase :: "layer \<Rightarrow> bool" where
  "no_learning_phase l = False"

definition recurrent_layer :: "string \<Rightarrow> int \<Rightarrow> bool \<Rightarrow> layer" where
  "recurrent_layer n units seqs =
     \<lparr>class_name = ''LSTM'', name = n,
      params = [''output_dim'' \<mapsto> PInt units, ''return_sequences'' \<mapsto> PBool seqs,
                ''go_backwards'' \<mapsto> PBool False, ''stateful'' \<mapsto> PBool False],
      initial_weights = None, weight_values = [], built = False,
      trainable_weights = None, non_trainable_weights = None,
      updates = None, losses = None, constraints = None\<rparr>"

definition recurrent_shape :: "layer \<Rightarrow> shapes \<Rightarrow> shape" where
  "recurrent_shape l input_shape =
     (case (input_shape, params l ''output_dim'', params l ''return_sequences'') of
        (Shape s, Some (PInt n), Some rs) \<Rightarrow>
          if truthy rs then [s ! 0, s ! 1, Some n] else [s ! 0, Some n]
      | _ \<Rightarrow> [])"

definition example_bidirectional :: "pyval \<Rightarrow> pyval \<Rightarrow> bidirectional" where
  "example_bidirectional mode seqs =
     \<lparr>forward_layer = 0, backward_layer = 1, merge_mode = mode, stateful = PBool False,
      return_sequences = seqs, bi_supports_masking = True, bi_layer = 0,
      bi_uses_learning_phase = False, bi_base_config = Map.empty\<rparr>"

text \<open>
  A dense layer with 8 units and its shape inference (the last axis becomes the
  number of units), a wrapper around it, and the shape inference of a layer whose
  output has a fixed first axis, as a layer with a user-supplied output shape can have.
\<close>

definition dense_layer :: layer where
  "dense_layer =
     \<lparr>class_name = ''Dense'', name = ''dense_1'', params = [''output_dim'' \<mapsto> PInt 8],
      initial_weights = None, weight_values = [], built = False,
      trainable_weights = None, non_trainable_weights = None,
      updates = None, losses = None, constraints = None\<rparr>"

definition dense_shape :: "layer \<Rightarrow> shapes \<Rightarrow> shape" where
  "dense_shape l input_shape =
     (case (input_shape, params l ''output_dim'') of
        (Shape s, Some (PInt n)) \<Rightarrow> butlast s @ [Some n]
      | (Shapes ss, Some (PInt n)) \<Rightarrow> butlast (hd ss) @ [Some n]
      | _ \<Rightarrow> [])"

definition fixed_batch_shape :: "layer \<Rightarrow> shapes \<Rightarrow> shape" where
  "fixed_batch_shape l input_shape = [Some 1, Some 8]"

definition example_time_distributed :: time_distributed where
  "example_time_distributed = TimeDistributed_init no_learning_phase [dense_layer] 0 Map.empty"

subsection \<open>The store after the constructor's renaming\<close>

text \<open>
  Two abbreviations for the proofs: the configuration from which the constructor of
  \<^verbatim>\<open>Bidirectional\<close> makes the backward layer, where \<open>t\<close> is the caller's layer and
  \<open>gb\<close> its \<^verbatim>\<open>go_backwards\<close> entry, and the store once both layers have their new
  names.
\<close>

definition backward_config :: "layer \<Rightarrow> pyval \<Rightarrow> config" where
  "backward_config t gb =
     \<lparr>cfg_name = name t, cfg_params = (params t)(''go_backwards'' \<mapsto> PBool (\<not> truthy gb))\<rparr>"

definition renamed_store :: "store \<Rightarrow> ref \<Rightarrow> pyval \<Rightarrow> store" where
  "renamed_store h l gb =
     (h @ [Layer_from_config (class_name (h ! l)) (backward_config (h ! l) gb)])
       [l := (h ! l)\<lparr>name := ''forward_'' @ name (h ! l)\<rparr>,
        length h := (Layer_from_config (class_name (h ! l)) (backward_config (h ! l) gb))
                      \<lparr>name := ''backward_'' @ name (h ! l)\<rparr>]"

text \<open>
  A store with one recurrent layer named \<^verbatim>\<open>lstm_1\<close>, a list of five weights, and a
  \<^verbatim>\<open>Bidirectional\<close> constructed around that layer. The wrapper only passes the entries
  of a weight list on, so the five entries are opaque objects.
\<close>

definition example_store :: store where
  "example_store = [recurrent_layer ''lstm_1'' 3 True]"

definition example_weights :: pyval where
  "example_weights = PList [PObj 1, PObj 2, PObj 3, PObj 4, PObj 5]"

definition example_init :: "pyval \<Rightarrow> pyval \<Rightarrow> store \<times> (py_error + bidirectional)" where
  "example_init mode ws = Bidirectional_init no_learning_phase example_store 0 mode ws Map.empty"

text \<open>
  Two layers that hold two and three weights, for the split of a list of five.
\<close>

definition weighted_layer :: "string \<Rightarrow> pyval list \<Rightarrow> layer" where
  "weighted_layer n ws = (recurrent_layer n 3 True)\<lparr>weight_values := ws\<rparr>"

definition example_weighted_store :: store where
  "example_weighted_store =
     [weighted_layer ''forward_lstm_1'' [PObj 6, PObj 7],
      weighted_layer ''backward_lstm_1'' [PObj 8, PObj 9, PObj 10]]"

text \<open>
  The wrapper around the dense layer once its input shape is declared, with the
  sequence-axis size \<open>t\<close>, and a \<^verbatim>\<open>build\<close> for the dense layer that creates its two
  weights.
\<close>

definition example_spec :: "dim \<Rightarrow> time_distributed" where
  "example_spec t = example_time_distributed\<lparr>td_input_spec := [[None, t, Some 16]]\<rparr>"

definition dense_build :: "layer \<Rightarrow> shapes \<Rightarrow> layer" where
  "dense_build l child_input_shape = l\<lparr>weight_values := [PObj 1, PObj 2]\<rparr>"

text \<open>
  The wrapper constructed around \<^verbatim>\<open>lstm_1\<close>, written out with \<^verbatim>\<open>get_config\<close> and read
  back with \<^verbatim>\<open>from_config\<close>.
\<close>

definition example_roundtrip :: "store \<times> (py_error + bidirectional)" where
  "example_roundtrip =
     (case example_init (PStr ''concat'') PNone of
        (h, Inr w) \<Rightarrow> Bidirectional_from_config no_learning_phase h (Bidirectional_get_config h w)
      | (h, Inl e) \<Rightarrow> (h, Inl e))"

section \<open>Properties\<close>

subsection \<open>Truth values\<close>

lemma truthy_simps [simp]:
  "truthy PNone = False"
  "truthy (PBool b) = b"
  "truthy (PInt i) = (i \<noteq> 0)"
  "truthy (PStr s) = (s \<noteq> [])"
  "truthy (PList xs) = (xs \<noteq> [])"
  "truthy (PObj n) = True"
  by (simp_all add: truthy_def)

lemma py_bool_Inr: "py_bool v = Inr t \<Longrightarrow> truthy v = t"
  by (auto simp: truthy_def)



subsection \<open>Shape inference of Bidirectional\<close>

text \<open>
  Claim C1. For every input shape and every valid merge mode,
  \<^verbatim>\<open>Bidirectional.get_output_shape_for\<close> returns the forward layer's inferred shape for
  \<^verbatim>\<open>'sum'\<close>, \<^verbatim>\<open>'ave'\<close> and \<^verbatim>\<open>'mul'\<close>; that shape with the size of its last axis doubled
  for \<^verbatim>\<open>'concat'\<close>; and a list of two copies of that shape for \<^verbatim>\<open>None\<close>. Doubling
  needs a last axis of known size \<open>n\<close>, which a recurrent layer's number of units is.
\<close>

theorem Bidirectional_get_output_shape_for_modes:
  "(merge_mode w \<in> {PStr ''sum'', PStr ''ave'', PStr ''mul''} \<longrightarrow>
      Bidirectional_get_output_shape_for shp h w s
        = Inr (Some (Shape (shp (h ! forward_layer w) s))))
   \<and> (merge_mode w = PStr ''concat'' \<longrightarrow> shp (h ! forward_layer w) s = pre @ [Some n] \<longrightarrow>
      Bidirectional_get_output_shape_for shp h w s = Inr (Some (Shape (pre @ [Some (2 * n)]))))
   \<and> (merge_mode w = PNone \<longrightarrow>
      Bidirectional_get_output_shape_for shp h w s
        = Inr (Some (Shapes [shp (h ! forward_layer w) s, shp (h ! forward_layer w) s])))"
  by (auto simp: Bidirectional_get_output_shape_for_def double_last_def numeral_2_eq_2)

theorem Bidirectional_get_output_shape_for_modes_witness:
  "Bidirectional_get_output_shape_for recurrent_shape
      [recurrent_layer ''forward_lstm_1'' 10 False, recurrent_layer ''backward_lstm_1'' 10 False]
      (example_bidirectional (PStr ''sum'') (PBool False)) (Shape [Some 32, Some 5, Some 10])
     = Inr (Some (Shape [Some 32, Some 10]))
   \<and> Bidirectional_get_output_shape_for recurrent_shape
      [recurrent_layer ''forward_lstm_1'' 10 False, recurrent_layer ''backward_lstm_1'' 10 False]
      (example_bidirectional (PStr ''concat'') (PBool False)) (Shape [Some 32, Some 5, Some 10])
     = Inr (Some (Shape [Some 32, Some 20]))
   \<and> Bidirectional_get_output_shape_for recurrent_shape
      [recurrent_layer ''forward_lstm_1'' 3 True, recurrent_layer ''backward_lstm_1'' 3 True]
      (example_bidirectional PNone (PBool True)) (Shape [None, Some 7, Some 4])
     = Inr (Some (Shapes [[None, Some 7, Some 3], [None, Some 7, Some 3]]))"
  using Bidirectional_get_output_shape_for_modes
          [of "example_bidirectional (PStr ''sum'') (PBool False)" recurrent_shape
              "[recurrent_layer ''forward_lstm_1'' 10 False,
                recurrent_layer ''backward_lstm_1'' 10 False]"
              "Shape [Some 32, Some 5, Some 10]"]
        Bidirectional_get_output_shape_for_modes
          [of "example_bidirectional (PStr ''concat'') (PBool False)" recurrent_shape
              "[recurrent_layer ''forward_lstm_1'' 10 False,
                recurrent_layer ''backward_lstm_1'' 10 False]"
              "Shape [Some 32, Some 5, Some 10]" "[Some 32]" 10]
        Bidirectional_get_output_shape_for_modes
          [of "example_bidirectional PNone (PBool True)" recurrent_shape
              "[recurrent_layer ''forward_lstm_1'' 3 True,
                recurrent_layer ''backward_lstm_1'' 3 True]"
              "Shape [None, Some 7, Some 4]"]
  by (simp add: example_bidirectional_def recurrent_shape_def recurrent_layer_def)

text \<open>
  Outside that case the branch for \<^verbatim>\<open>'concat'\<close> raises: \<^verbatim>\<open>shape[-1] *= 2\<close> cannot double
  \<^verbatim>\<open>None\<close> and has nothing to double in an empty shape.
\<close>

lemma Bidirectional_get_output_shape_for_concat_raises:
  assumes "merge_mode w = PStr ''concat''"
  shows "shp (h ! forward_layer w) s = pre @ [None] \<Longrightarrow>
           Bidirectional_get_output_shape_for shp h w s = Inl TypeError"
    and "shp (h ! forward_layer w) s = [] \<Longrightarrow>
           Bidirectional_get_output_shape_for shp h w s = Inl IndexError"
  using assms by (simp_all add: Bidirectional_get_output_shape_for_def double_last_def)

subsection \<open>Shape inference of TimeDistributed\<close>

lemma all_items_nth:
  "\<forall>s\<in>set ss. i < length s \<Longrightarrow> all_items i ss = Inr (map (\<lambda>s. s ! i) ss)"
  by (induction ss) (simp_all add: item_def)

lemma child_shapes_map:
  "\<forall>s\<in>set ss. s \<noteq> [] \<Longrightarrow> child_shapes ss = Inr (map (\<lambda>s. hd s # drop 2 s) ss)"
  by (induction ss) (auto simp: child_shape_def split: list.splits)

lemma py_max_Max:
  assumes "xs \<noteq> []"
  shows "py_max xs = Inr (Max (set xs))"
proof (cases xs)
  case Nil
  with assms show ?thesis by simp
next
  case (Cons x ys)
  have "foldl max x ys = fold max ys x"
    by (simp add: foldl_conv_fold max.commute)
  also have "\<dots> = Max (set (x # ys))"
    by (rule Max.set_eq_fold [symmetric])
  finally show ?thesis using Cons by simp
qed

lemma timesteps_of_known:
  assumes "ss \<noteq> []" and "\<forall>s\<in>set ss. 1 < length s"
  shows "timesteps_of ss =
           Inr (if \<exists>s\<in>set ss. s ! 1 = None then None
                else Some (Max ((\<lambda>s. the (s ! 1)) ` set ss)))"
proof -
  have "all_items 1 ss = Inr (map (\<lambda>s. s ! 1) ss)"
    using assms(2) by (rule all_items_nth)
  moreover have "py_max (map the (map (\<lambda>s. s ! 1) ss)) = Inr (Max ((\<lambda>s. the (s ! 1)) ` set ss))"
    using assms(1) by (simp add: py_max_Max image_image)
  moreover have "(None \<in> set (map (\<lambda>s. s ! 1) ss)) = (\<exists>s\<in>set ss. s ! 1 = None)"
    by (induction ss) auto
  ultimately show ?thesis
    by (simp add: timesteps_of_def del: set_map)
qed

text \<open>
  Claim C2, as stated: the result of \<^verbatim>\<open>TimeDistributed.get_output_shape_for\<close> has the
  input's size at axis 0. The method takes axis 0 from the inner layer's inferred shape
  instead, so an inner layer that does not keep the first axis refutes it.
\<close>

theorem TimeDistributed_batch_axis_counterexample:
  "TimeDistributed_get_output_shape_for fixed_batch_shape [dense_layer] example_time_distributed
      (Shape [None, Some 10, Some 16]) = Inr [Some 1, Some 10, Some 8]
   \<and> [Some 1, Some 10, Some 8] ! 0 \<noteq> [None, Some 10, Some (16::int)] ! 0"
  by (simp add: TimeDistributed_get_output_shape_for_def child_shape_def item_def reattach_def
        fixed_batch_shape_def)

text \<open>
  Claim C2, amended. For an input shape \<open>s\<close> of rank at least 3, the result has
  \<open>s[1]\<close> at axis 1; its axis 0 and its axes from 2 on are axis 0 and the axes from 1 on
  of the inner layer's inferred shape for the child shape, which is \<open>s\<close> without
  axis 1. For a non-empty list of such shapes, axis 1 of the result is \<^verbatim>\<open>None\<close> if some
  input's axis 1 is unknown and the maximum of the inputs' axis 1 otherwise, and the
  other axes come in the same way from the inner layer's inference on the list of
  child shapes.
\<close>

theorem TimeDistributed_get_output_shape_for_axes:
  "(3 \<le> length s \<longrightarrow> shp (h ! td_layer w) (Shape (hd s # drop 2 s)) = b # rest \<longrightarrow>
      TimeDistributed_get_output_shape_for shp h w (Shape s) = Inr (b # s ! 1 # rest))
   \<and> (ss \<noteq> [] \<longrightarrow> (\<forall>s\<in>set ss. 3 \<le> length s) \<longrightarrow>
      shp (h ! td_layer w) (Shapes (map (\<lambda>s. hd s # drop 2 s) ss)) = b # rest \<longrightarrow>
      TimeDistributed_get_output_shape_for shp h w (Shapes ss)
        = Inr (b # (if \<exists>s\<in>set ss. s ! 1 = None then None
                    else Some (Max ((\<lambda>s. the (s ! 1)) ` set ss))) # rest))"
proof (intro conjI impI)
  assume "3 \<le> length s" and "shp (h ! td_layer w) (Shape (hd s # drop 2 s)) = b # rest"
  then show "TimeDistributed_get_output_shape_for shp h w (Shape s) = Inr (b # s ! 1 # rest)"
    by (cases s) (auto simp: TimeDistributed_get_output_shape_for_def child_shape_def
          item_def reattach_def)
next
  assume ne: "ss \<noteq> []" and rank: "\<forall>s\<in>set ss. 3 \<le> length s"
    and co: "shp (h ! td_layer w) (Shapes (map (\<lambda>s. hd s # drop 2 s) ss)) = b # rest"
  from rank have r1: "\<forall>s\<in>set ss. 1 < length s" and r0: "\<forall>s\<in>set ss. s \<noteq> []"
    by auto
  show "TimeDistributed_get_output_shape_for shp h w (Shapes ss)
        = Inr (b # (if \<exists>s\<in>set ss. s ! 1 = None then None
                    else Some (Max ((\<lambda>s. the (s ! 1)) ` set ss))) # rest)"
    by (simp add: TimeDistributed_get_output_shape_for_def timesteps_of_known [OF ne r1]
          child_shapes_map [OF r0] co reattach_def)
qed

theorem TimeDistributed_get_output_shape_for_axes_witness:
  "TimeDistributed_get_output_shape_for dense_shape [dense_layer] example_time_distributed
      (Shape [None, Some 10, Some 16]) = Inr [None, Some 10, Some 8]
   \<and> TimeDistributed_get_output_shape_for dense_shape [dense_layer] example_time_distributed
      (Shapes [[None, Some 10, Some 16], [None, Some 1, Some 16], [None, Some 7, Some 4]])
       = Inr [None, Some 10, Some 8]
   \<and> TimeDistributed_get_output_shape_for dense_shape [dense_layer] example_time_distributed
      (Shapes [[None, Some 10, Some 16], [None, None, Some 16]])
       = Inr [None, None, Some 8]"
  using TimeDistributed_get_output_shape_for_axes
          [of "[None, Some 10, Some 16]" dense_shape "[dense_layer]" example_time_distributed
              None "[Some 8]"]
        TimeDistributed_get_output_shape_for_axes
          [of _ dense_shape "[dense_layer]" example_time_distributed
              None "[Some 8]"
              "[[None, Some 10, Some 16], [None, Some 1, Some 16], [None, Some 7, Some 4]]"]
        TimeDistributed_get_output_shape_for_axes
          [of _ dense_shape "[dense_layer]" example_time_distributed
              None "[Some 8]"
              "[[None, Some 10, Some 16], [None, None, Some 16]]"]
  by (simp add: dense_shape_def dense_layer_def example_time_distributed_def
        TimeDistributed_init_def)

subsection \<open>Construction of Bidirectional\<close>

lemma set_initial_weights_frame:
  assumes "set_initial_weights h f b ws = (h', r)"
  shows "length h' = length h"
    and "name (h' ! i) = name (h ! i)"
    and "params (h' ! i) = params (h ! i)"
    and "class_name (h' ! i) = class_name (h ! i)"
    and "weight_values (h' ! i) = weight_values (h ! i)"
    and "i \<noteq> f \<Longrightarrow> i \<noteq> b \<Longrightarrow> h' ! i = h ! i"
proof -
  have *: "h' = h \<or> (\<exists>x y. h' = (h[f := (h ! f)\<lparr>initial_weights := x\<rparr>])
              [b := ((h[f := (h ! f)\<lparr>initial_weights := x\<rparr>]) ! b)\<lparr>initial_weights := y\<rparr>])"
    using assms by (auto simp: set_initial_weights_def Let_def split: if_splits sum.splits)
  show "length h' = length h" using * by auto
  have upd: "\<And>(g::store) k x. name ((g[k := (g ! k)\<lparr>initial_weights := x\<rparr>]) ! i) = name (g ! i)
      \<and> params ((g[k := (g ! k)\<lparr>initial_weights := x\<rparr>]) ! i) = params (g ! i)
      \<and> class_name ((g[k := (g ! k)\<lparr>initial_weights := x\<rparr>]) ! i) = class_name (g ! i)
      \<and> weight_values ((g[k := (g ! k)\<lparr>initial_weights := x\<rparr>]) ! i) = weight_values (g ! i)"
  proof -
    fix g :: store and k x
    show "name ((g[k := (g ! k)\<lparr>initial_weights := x\<rparr>]) ! i) = name (g ! i)
      \<and> params ((g[k := (g ! k)\<lparr>initial_weights := x\<rparr>]) ! i) = params (g ! i)
      \<and> class_name ((g[k := (g ! k)\<lparr>initial_weights := x\<rparr>]) ! i) = class_name (g ! i)
      \<and> weight_values ((g[k := (g ! k)\<lparr>initial_weights := x\<rparr>]) ! i) = weight_values (g ! i)"
      by (cases "k < length g"; cases "i = k") (simp_all add: list_update_beyond)
  qed
  show "name (h' ! i) = name (h ! i)" using * upd by auto
  show "params (h' ! i) = params (h ! i)" using * upd by auto
  show "class_name (h' ! i) = class_name (h ! i)" using * upd by auto
  show "weight_values (h' ! i) = weight_values (h ! i)" using * upd by auto
  show "i \<noteq> f \<Longrightarrow> i \<noteq> b \<Longrightarrow> h' ! i = h ! i" using * by auto
qed


lemma Bidirectional_init_unfold:
  assumes "l < length h"
    and "mode \<in> {PStr ''sum'', PStr ''mul'', PStr ''ave'', PStr ''concat'', PNone}"
    and "params (h ! l) ''go_backwards'' = Some gb"
    and "py_bool gb = Inr g"
  shows "Bidirectional_init ulp h l mode ws kw =
     (case set_initial_weights (renamed_store h l gb) l (length h) ws of
        (h4, Inl e) \<Rightarrow> (h4, Inl e)
      | (h4, Inr _) \<Rightarrow>
          (case getattr (h4 ! l) ''stateful'' of
             Inl e \<Rightarrow> (h4, Inl e)
           | Inr st \<Rightarrow>
               (case getattr (h4 ! l) ''return_sequences'' of
                  Inl e \<Rightarrow> (h4, Inl e)
                | Inr rs \<Rightarrow>
                    (h4, Inr \<lparr>forward_layer = l, backward_layer = length h,
                              merge_mode = mode, stateful = st,
                              return_sequences = rs, bi_supports_masking = True,
                              bi_layer = l,
                              bi_uses_learning_phase = ulp (h4 ! l),
                              bi_base_config = kw\<rparr>))))"
  using assms py_bool_Inr [of gb g]
  by (simp add: Bidirectional_init_def Layer_get_config_def Let_def renamed_store_def
        backward_config_def nth_append Layer_from_config_def)

lemma Bidirectional_init_Inr:
  assumes "Bidirectional_init ulp h l mode ws kw = (h', Inr w)" and "l < length h"
  shows "\<exists>gb. params (h ! l) ''go_backwards'' = Some gb
          \<and> set_initial_weights (renamed_store h l gb) l (length h) ws = (h', Inr ())
          \<and> mode \<in> {PStr ''sum'', PStr ''mul'', PStr ''ave'', PStr ''concat'', PNone}
          \<and> forward_layer w = l \<and> backward_layer w = length h \<and> bi_layer w = l
          \<and> merge_mode w = mode \<and> bi_base_config w = kw
          \<and> params (h ! l) ''stateful'' = Some (stateful w)
          \<and> params (h ! l) ''return_sequences'' = Some (return_sequences w)"
proof -
  from assms(1) have m: "mode \<in> {PStr ''sum'', PStr ''mul'', PStr ''ave'', PStr ''concat'', PNone}"
    by (auto simp: Bidirectional_init_def split: if_splits)
  from assms(1) m obtain gb where gb: "params (h ! l) ''go_backwards'' = Some gb"
    by (cases "params (h ! l) ''go_backwards''")
       (auto simp: Bidirectional_init_def Layer_get_config_def)
  from assms(1) m gb obtain g where g: "py_bool gb = Inr g"
    by (cases "py_bool gb") (auto simp: Bidirectional_init_def Layer_get_config_def)
  note step = Bidirectional_init_unfold [OF assms(2) m gb g, of ulp ws kw]
  obtain h4 r where siw: "set_initial_weights (renamed_store h l gb) l (length h) ws = (h4, r)"
    by (cases "set_initial_weights (renamed_store h l gb) l (length h) ws")
  have p4: "params (h4 ! l) = params (h ! l)"
    using set_initial_weights_frame(3)[OF siw, of l] assms(2)
    by (simp add: renamed_store_def nth_append)
  from assms(1) step siw p4 have
    "r = Inr () \<and> h4 = h' \<and> forward_layer w = l \<and> backward_layer w = length h \<and> bi_layer w = l
          \<and> merge_mode w = mode \<and> bi_base_config w = kw
          \<and> params (h ! l) ''stateful'' = Some (stateful w)
          \<and> params (h ! l) ''return_sequences'' = Some (return_sequences w)"
    by (auto simp: getattr_def split: sum.splits option.splits)
  with siw gb m show ?thesis by blast
qed

lemma renamed_store_facts:
  assumes "l < length h"
  shows "length (renamed_store h l gb) = Suc (length h)"
    and "renamed_store h l gb ! l = (h ! l)\<lparr>name := ''forward_'' @ name (h ! l)\<rparr>"
    and "renamed_store h l gb ! length h =
           (Layer_from_config (class_name (h ! l)) (backward_config (h ! l) gb))
              \<lparr>name := ''backward_'' @ name (h ! l)\<rparr>"
    and "r < length h \<Longrightarrow> r \<noteq> l \<Longrightarrow> renamed_store h l gb ! r = h ! r"
  using assms by (simp_all add: renamed_store_def nth_append)

lemma example_init_value:
  assumes "mode \<in> {PStr ''sum'', PStr ''mul'', PStr ''ave'', PStr ''concat'', PNone}"
    and "py_bool ws = Inr False"
  shows "example_init mode ws =
     ([(recurrent_layer ''lstm_1'' 3 True)\<lparr>name := ''forward_lstm_1''\<rparr>,
       (recurrent_layer ''lstm_1'' 3 True)
          \<lparr>name := ''backward_lstm_1'',
           params := (params (recurrent_layer ''lstm_1'' 3 True))(''go_backwards'' \<mapsto> PBool True)\<rparr>],
      Inr \<lparr>forward_layer = 0, backward_layer = 1, merge_mode = mode, stateful = PBool False,
           return_sequences = PBool True, bi_supports_masking = True, bi_layer = 0,
           bi_uses_learning_phase = False, bi_base_config = Map.empty\<rparr>)"
proof -
  have l: "(0::nat) < length example_store" by (simp add: example_store_def)
  have gb: "params (example_store ! 0) ''go_backwards'' = Some (PBool False)"
    by (simp add: example_store_def recurrent_layer_def)
  have g: "py_bool (PBool False) = Inr False" by simp
  show ?thesis
    unfolding example_init_def Bidirectional_init_unfold [OF l assms(1) gb g]
    using assms(2)
    by (simp add: set_initial_weights_def renamed_store_def backward_config_def
          example_store_def recurrent_layer_def Layer_from_config_def getattr_def
          no_learning_phase_def)
qed



text \<open>
  That error is reachable: given an array of two entries as \<^verbatim>\<open>weights\<close>, the
  constructor raises it at \<^verbatim>\<open>if weights:\<close>, after it has renamed the caller's layer.
\<close>

lemma Bidirectional_init_array_weights:
  "snd (example_init (PStr ''concat'') (PArray [1, 2])) = Inl (ValueError array_truth_msg)"
  and "name (fst (example_init (PStr ''concat'') (PArray [1, 2])) ! 0) = ''forward_lstm_1''"
proof -
  have l: "(0::nat) < length example_store" by (simp add: example_store_def)
  have gb: "params (example_store ! 0) ''go_backwards'' = Some (PBool False)"
    by (simp add: example_store_def recurrent_layer_def)
  have m: "PStr ''concat'' \<in> {PStr ''sum'', PStr ''mul'', PStr ''ave'', PStr ''concat'', PNone}"
    by simp
  have g: "py_bool (PBool False) = Inr False" by simp
  have e: "example_init (PStr ''concat'') (PArray [1, 2])
             = (renamed_store example_store 0 (PBool False), Inl (ValueError array_truth_msg))"
    unfolding example_init_def Bidirectional_init_unfold [OF l m gb g]
    by (simp add: set_initial_weights_def)
  show "snd (example_init (PStr ''concat'') (PArray [1, 2])) = Inl (ValueError array_truth_msg)"
    by (simp add: e)
  show "name (fst (example_init (PStr ''concat'') (PArray [1, 2])) ! 0) = ''forward_lstm_1''"
    by (simp add: e renamed_store_def example_store_def recurrent_layer_def)
qed



text \<open>
  Claim C10. The constructor of \<^verbatim>\<open>Bidirectional\<close> changes the caller's layer object:
  the wrapper's forward layer (and its \<^verbatim>\<open>layer\<close>) is the reference it was given, and
  the object behind it has its name overwritten with the prefix \<^verbatim>\<open>forward_\<close>. Only the
  backward layer is a new object: the one reference the store gains. No other object
  changes.
\<close>

theorem Bidirectional_init_renames_template:
  assumes "l < length h" and "Bidirectional_init ulp h l mode ws kw = (h', Inr w)"
  shows "forward_layer w = l \<and> bi_layer w = l
         \<and> name (h' ! l) = ''forward_'' @ name (h ! l)
         \<and> params (h' ! l) = params (h ! l)
         \<and> backward_layer w = length h \<and> length h' = Suc (length h)
         \<and> (\<forall>r<length h. r \<noteq> l \<longrightarrow> h' ! r = h ! r)"
proof -
  from Bidirectional_init_Inr [OF assms(2,1)] obtain gb where
    siw: "set_initial_weights (renamed_store h l gb) l (length h) ws = (h', Inr ())"
    and w: "forward_layer w = l" "backward_layer w = length h" "bi_layer w = l"
    by blast
  note fr = set_initial_weights_frame [OF siw] and rs = renamed_store_facts [OF assms(1), where gb = gb]
  have "name (h' ! l) = ''forward_'' @ name (h ! l)"
    using fr(2) [of l] rs(2) by simp
  moreover have "params (h' ! l) = params (h ! l)"
    using fr(3) [of l] rs(2) by simp
  moreover have "length h' = Suc (length h)"
    using fr(1) rs(1) by simp
  moreover have "\<forall>r<length h. r \<noteq> l \<longrightarrow> h' ! r = h ! r"
    using fr(6) rs(4) by simp
  ultimately show ?thesis using w by simp
qed

theorem Bidirectional_init_renames_template_witness:
  "0 < length example_store
   \<and> snd (example_init (PStr ''concat'') PNone) = Inr (projr (snd (example_init (PStr ''concat'') PNone)))
   \<and> forward_layer (projr (snd (example_init (PStr ''concat'') PNone))) = 0
   \<and> name (example_store ! 0) = ''lstm_1''
   \<and> name (fst (example_init (PStr ''concat'') PNone) ! 0) = ''forward_lstm_1''
   \<and> backward_layer (projr (snd (example_init (PStr ''concat'') PNone))) = 1
   \<and> length (fst (example_init (PStr ''concat'') PNone)) = 2"
proof -
  have l: "0 < length example_store" by (simp add: example_store_def)
  have v: "Bidirectional_init no_learning_phase example_store 0 (PStr ''concat'') PNone Map.empty
     = (fst (example_init (PStr ''concat'') PNone),
        Inr (projr (snd (example_init (PStr ''concat'') PNone))))"
    using example_init_value [of "PStr ''concat''" PNone] by (simp add: example_init_def)
  have n: "name (example_store ! 0) = ''lstm_1''" "length example_store = 1"
    by (simp_all add: example_store_def recurrent_layer_def)
  have s: "snd (example_init (PStr ''concat'') PNone)
             = Inr (projr (snd (example_init (PStr ''concat'') PNone)))"
    using example_init_value [of "PStr ''concat''" PNone] by simp
  show ?thesis
    using Bidirectional_init_renames_template [OF l v] l s n by simp
qed

text \<open>
  Claim C8, as stated: the constructor clones the template into two independent
  layers. The forward layer is no clone: it is the template object itself, a reference
  that was in the store before, and the constructor has changed that object.
\<close>

theorem Bidirectional_forward_layer_counterexample:
  "forward_layer (projr (snd (example_init (PStr ''concat'') PNone))) = 0
   \<and> \<not> length example_store \<le> forward_layer (projr (snd (example_init (PStr ''concat'') PNone)))
   \<and> fst (example_init (PStr ''concat'') PNone) ! 0 \<noteq> example_store ! 0"
  by (simp add: example_init_value) (simp add: example_store_def recurrent_layer_def)

text \<open>
  Claim C8, amended. After construction the forward layer is the template object
  itself and the backward layer is a new object of the same class, made from the
  template's configuration. The forward layer has the template's \<^verbatim>\<open>go_backwards\<close>
  entry, the backward layer the logical inverse of it; their names are the template's
  name with the prefixes \<^verbatim>\<open>forward_\<close> and \<^verbatim>\<open>backward_\<close>; the other entries of their
  configurations are the same.
\<close>

theorem Bidirectional_init_layers:
  assumes "l < length h" and "Bidirectional_init ulp h l mode ws kw = (h', Inr w)"
  shows "forward_layer w = l \<and> backward_layer w = length h
         \<and> (\<exists>gb. params (h ! l) ''go_backwards'' = Some gb
              \<and> params (h' ! forward_layer w) = params (h ! l)
              \<and> params (h' ! backward_layer w)
                   = (params (h ! l))(''go_backwards'' \<mapsto> PBool (\<not> truthy gb)))
         \<and> name (h' ! forward_layer w) = ''forward_'' @ name (h ! l)
         \<and> name (h' ! backward_layer w) = ''backward_'' @ name (h ! l)
         \<and> class_name (h' ! forward_layer w) = class_name (h ! l)
         \<and> class_name (h' ! backward_layer w) = class_name (h ! l)"
proof -
  from Bidirectional_init_Inr [OF assms(2,1)] obtain gb where
    gb: "params (h ! l) ''go_backwards'' = Some gb"
    and siw: "set_initial_weights (renamed_store h l gb) l (length h) ws = (h', Inr ())"
    and w: "forward_layer w = l" "backward_layer w = length h"
    by blast
  note fr = set_initial_weights_frame [OF siw]
    and rs = renamed_store_facts [OF assms(1), where gb = gb]
  have f: "params (h' ! l) = params (h ! l)" "name (h' ! l) = ''forward_'' @ name (h ! l)"
    "class_name (h' ! l) = class_name (h ! l)"
    using fr(2-4) [of l] rs(2) by simp_all
  have b: "params (h' ! length h) = (params (h ! l))(''go_backwards'' \<mapsto> PBool (\<not> truthy gb))"
    "name (h' ! length h) = ''backward_'' @ name (h ! l)"
    "class_name (h' ! length h) = class_name (h ! l)"
    using fr(2-4) [of "length h"] rs(3)
    by (simp_all add: Layer_from_config_def backward_config_def)
  show ?thesis using gb w f b by simp
qed

theorem Bidirectional_init_layers_witness:
  "0 < length example_store
   \<and> snd (example_init (PStr ''concat'') PNone) = Inr (projr (snd (example_init (PStr ''concat'') PNone)))
   \<and> forward_layer (projr (snd (example_init (PStr ''concat'') PNone))) = 0
   \<and> backward_layer (projr (snd (example_init (PStr ''concat'') PNone))) = 1
   \<and> name (fst (example_init (PStr ''concat'') PNone) ! 0) = ''forward_lstm_1''
   \<and> name (fst (example_init (PStr ''concat'') PNone) ! 1) = ''backward_lstm_1''
   \<and> params (fst (example_init (PStr ''concat'') PNone) ! 0) ''go_backwards'' = Some (PBool False)
   \<and> params (fst (example_init (PStr ''concat'') PNone) ! 1) ''go_backwards'' = Some (PBool True)"
proof -
  have l: "0 < length example_store" by (simp add: example_store_def)
  have v: "Bidirectional_init no_learning_phase example_store 0 (PStr ''concat'') PNone Map.empty
     = (fst (example_init (PStr ''concat'') PNone),
        Inr (projr (snd (example_init (PStr ''concat'') PNone))))"
    using example_init_value [of "PStr ''concat''" PNone] by (simp add: example_init_def)
  have n: "name (example_store ! 0) = ''lstm_1''" "length example_store = 1"
    "params (example_store ! 0) ''go_backwards'' = Some (PBool False)"
    by (simp_all add: example_store_def recurrent_layer_def)
  have s: "snd (example_init (PStr ''concat'') PNone)
             = Inr (projr (snd (example_init (PStr ''concat'') PNone)))"
    using example_init_value [of "PStr ''concat''" PNone] by simp
  show ?thesis
    using Bidirectional_init_layers [OF l v] l s n by auto
qed

subsection \<open>Weights of Bidirectional\<close>

lemma Bidirectional_set_weights_Inr:
  assumes "Bidirectional_set_weights g w xs = (g', Inr ())"
    and "forward_layer w < length g" and "backward_layer w < length g"
    and "forward_layer w \<noteq> backward_layer w"
  shows "weight_values (g' ! forward_layer w) = take (length xs div 2) xs"
    and "weight_values (g' ! backward_layer w) = drop (length xs div 2) xs"
    and "Bidirectional_get_weights g' w = xs"
  using assms
  by (auto simp: Bidirectional_set_weights_def Layer_set_weights_def Let_def
        Bidirectional_get_weights_def split: if_splits)

lemma Bidirectional_set_weights_succeeds:
  assumes "length (weight_values (g ! forward_layer w)) = length xs div 2"
    and "length (weight_values (g ! backward_layer w)) = length xs - length xs div 2"
    and "forward_layer w < length g" and "forward_layer w \<noteq> backward_layer w"
  shows "snd (Bidirectional_set_weights g w xs) = Inr ()"
  using assms
  by (auto simp: Bidirectional_set_weights_def Layer_set_weights_def Let_def)

text \<open>
  Claim C5. Of a weight list of length \<open>N\<close> given to \<^verbatim>\<open>Bidirectional\<close>, the first
  \<open>N div 2\<close> entries go to the forward layer and the other \<open>N - N div 2\<close> to the
  backward layer, in their order: as initial weights when the list is given to the
  constructor (an empty list assigns nothing), and through the layers' own
  \<^verbatim>\<open>set_weights\<close> when it is given to \<^verbatim>\<open>Bidirectional.set_weights\<close>, which succeeds when
  the two layers hold that many weights; \<^verbatim>\<open>get_weights\<close> then returns the list.
\<close>

theorem Bidirectional_weight_split:
  "(l < length h \<longrightarrow> Bidirectional_init ulp h l mode (PList xs) kw = (h', Inr w) \<longrightarrow>
      (xs \<noteq> [] \<longrightarrow>
         initial_weights (h' ! forward_layer w) = Some (PList (take (length xs div 2) xs))
         \<and> initial_weights (h' ! backward_layer w) = Some (PList (drop (length xs div 2) xs)))
      \<and> (xs = [] \<longrightarrow>
         initial_weights (h' ! forward_layer w) = initial_weights (h ! l)
         \<and> initial_weights (h' ! backward_layer w) = None))
   \<and> (forward_layer v < length g \<longrightarrow> backward_layer v < length g \<longrightarrow>
      forward_layer v \<noteq> backward_layer v \<longrightarrow>
      (Bidirectional_set_weights g v xs = (g', Inr ()) \<longrightarrow>
         weight_values (g' ! forward_layer v) = take (length xs div 2) xs
         \<and> weight_values (g' ! backward_layer v) = drop (length xs div 2) xs
         \<and> Bidirectional_get_weights g' v = xs)
      \<and> (length (weight_values (g ! forward_layer v)) = length xs div 2 \<longrightarrow>
         length (weight_values (g ! backward_layer v)) = length xs - length xs div 2 \<longrightarrow>
         snd (Bidirectional_set_weights g v xs) = Inr ()))
   \<and> length (take (length xs div 2) xs) = length xs div 2
   \<and> length (drop (length xs div 2) xs) = length xs - length xs div 2
   \<and> take (length xs div 2) xs @ drop (length xs div 2) xs = xs"
proof (intro conjI impI)
  assume l: "l < length h"
    and i: "Bidirectional_init ulp h l mode (PList xs) kw = (h', Inr w)"
  from Bidirectional_init_Inr [OF i l] obtain gb where
    siw: "set_initial_weights (renamed_store h l gb) l (length h) (PList xs) = (h', Inr ())"
    and w: "forward_layer w = l" "backward_layer w = length h"
    by blast
  note rs = renamed_store_facts [OF l, where gb = gb]
  {
    assume "xs \<noteq> []"
    with siw l rs(1) have h': "h' = (renamed_store h l gb)
        [l := (renamed_store h l gb ! l)\<lparr>initial_weights := Some (PList (take (length xs div 2) xs))\<rparr>,
         length h := (renamed_store h l gb ! length h)
                        \<lparr>initial_weights := Some (PList (drop (length xs div 2) xs))\<rparr>]"
      by (auto simp: set_initial_weights_def Let_def)
    show "initial_weights (h' ! forward_layer w) = Some (PList (take (length xs div 2) xs))"
      using l rs(1) by (simp add: h' w)
    show "initial_weights (h' ! backward_layer w) = Some (PList (drop (length xs div 2) xs))"
      using l rs(1) by (simp add: h' w)
  }
  {
    assume "xs = []"
    with siw have h': "h' = renamed_store h l gb"
      by (simp add: set_initial_weights_def)
    show "initial_weights (h' ! forward_layer w) = initial_weights (h ! l)"
      by (simp add: h' w rs(2))
    show "initial_weights (h' ! backward_layer w) = None"
      by (simp add: h' w rs(3) Layer_from_config_def)
  }
next
  assume "forward_layer v < length g" "backward_layer v < length g"
    "forward_layer v \<noteq> backward_layer v" "Bidirectional_set_weights g v xs = (g', Inr ())"
  then show "weight_values (g' ! forward_layer v) = take (length xs div 2) xs"
    and "weight_values (g' ! backward_layer v) = drop (length xs div 2) xs"
    and "Bidirectional_get_weights g' v = xs"
    by (simp_all add: Bidirectional_set_weights_Inr)
next
  assume "forward_layer v < length g" "forward_layer v \<noteq> backward_layer v"
    "length (weight_values (g ! forward_layer v)) = length xs div 2"
    "length (weight_values (g ! backward_layer v)) = length xs - length xs div 2"
  then show "snd (Bidirectional_set_weights g v xs) = Inr ()"
    by (simp add: Bidirectional_set_weights_succeeds)
qed simp_all

lemma example_init_weights:
  "snd (example_init (PStr ''concat'') example_weights)
     = Inr (projr (snd (example_init (PStr ''concat'') example_weights)))"
proof -
  have l: "(0::nat) < length example_store" by (simp add: example_store_def)
  have gb: "params (example_store ! 0) ''go_backwards'' = Some (PBool False)"
    by (simp add: example_store_def recurrent_layer_def)
  have m: "PStr ''concat'' \<in> {PStr ''sum'', PStr ''mul'', PStr ''ave'', PStr ''concat'', PNone}"
    by simp
  have g: "py_bool (PBool False) = Inr False" by simp
  show ?thesis
    unfolding example_init_def Bidirectional_init_unfold [OF l m gb g]
    by (simp add: set_initial_weights_def renamed_store_def backward_config_def
          example_store_def recurrent_layer_def Layer_from_config_def getattr_def
          example_weights_def Let_def)
qed

theorem Bidirectional_weight_split_witness:
  "initial_weights (fst (example_init (PStr ''concat'') (PList [])) ! 0) = None
   \<and> initial_weights (fst (example_init (PStr ''concat'') (PList [])) ! 1) = None
   \<and> initial_weights (fst (example_init (PStr ''concat'') example_weights) ! 0)
     = Some (PList [PObj 1, PObj 2])
   \<and> initial_weights (fst (example_init (PStr ''concat'') example_weights) ! 1)
     = Some (PList [PObj 3, PObj 4, PObj 5])
   \<and> snd (Bidirectional_set_weights example_weighted_store
            (example_bidirectional (PStr ''concat'') (PBool True))
            [PObj 1, PObj 2, PObj 3, PObj 4, PObj 5]) = Inr ()
   \<and> weight_values (fst (Bidirectional_set_weights example_weighted_store
            (example_bidirectional (PStr ''concat'') (PBool True))
            [PObj 1, PObj 2, PObj 3, PObj 4, PObj 5]) ! 0) = [PObj 1, PObj 2]
   \<and> weight_values (fst (Bidirectional_set_weights example_weighted_store
            (example_bidirectional (PStr ''concat'') (PBool True))
            [PObj 1, PObj 2, PObj 3, PObj 4, PObj 5]) ! 1) = [PObj 3, PObj 4, PObj 5]"
proof -
  let ?xs = "[PObj 1, PObj 2, PObj 3, PObj 4, PObj 5]"
  let ?v = "example_bidirectional (PStr ''concat'') (PBool True)"
  let ?i = "example_init (PStr ''concat'') example_weights"
  let ?s = "Bidirectional_set_weights example_weighted_store ?v ?xs"
  let ?j = "example_init (PStr ''concat'') (PList [])"
  have l: "0 < length example_store" by (simp add: example_store_def)
  have j: "Bidirectional_init no_learning_phase example_store 0 (PStr ''concat'') (PList [])
             Map.empty = (fst ?j, Inr (projr (snd ?j)))"
    using example_init_value [of "PStr ''concat''" "PList []"] by (simp add: example_init_def)
  have wj: "forward_layer (projr (snd ?j)) = 0" "backward_layer (projr (snd ?j)) = 1"
    "initial_weights (example_store ! 0) = None"
    using example_init_value [of "PStr ''concat''" "PList []"]
    by (simp_all add: example_store_def recurrent_layer_def)
  have empty: "initial_weights (fst ?j ! 0) = None \<and> initial_weights (fst ?j ! 1) = None"
    using Bidirectional_weight_split
            [of 0 example_store no_learning_phase "PStr ''concat''" "[]" Map.empty
                "fst ?j" "projr (snd ?j)"] l j wj
    by simp
  have i: "Bidirectional_init no_learning_phase example_store 0 (PStr ''concat'') (PList ?xs)
             Map.empty = (fst ?i, Inr (projr (snd ?i)))"
    using example_init_weights
    by (simp add: example_init_def example_weights_def prod_eq_iff)
  have w: "forward_layer (projr (snd ?i)) = 0" "backward_layer (projr (snd ?i)) = 1"
    using Bidirectional_init_Inr [OF i l] by (auto simp: example_store_def)
  have v: "forward_layer ?v = 0" "backward_layer ?v = 1" "length example_weighted_store = 2"
    "length (weight_values (example_weighted_store ! 0)) = 2"
    "length (weight_values (example_weighted_store ! 1)) = 3"
    by (simp_all add: example_bidirectional_def example_weighted_store_def weighted_layer_def)
  have ok: "snd ?s = Inr ()"
    using Bidirectional_weight_split
            [of 0 example_store no_learning_phase "PStr ''concat''" ?xs Map.empty
                "fst ?i" "projr (snd ?i)" ?v example_weighted_store "fst ?s"] v
    by simp
  then have s: "?s = (fst ?s, Inr ())"
    by (simp add: prod_eq_iff)
  show ?thesis
    using Bidirectional_weight_split
            [of 0 example_store no_learning_phase "PStr ''concat''" ?xs Map.empty
                "fst ?i" "projr (snd ?i)" ?v example_weighted_store "fst ?s"] l i w v ok s
      empty
    by (simp add: example_weights_def)
qed

subsection \<open>The call of Bidirectional\<close>

text \<open>
  Claim C7. \<^verbatim>\<open>Bidirectional.call\<close> calls the forward and the backward layer on the
  same input \<open>X\<close>, as it is. It reverses the backward layer's result along axis 1, the
  time axis, exactly when the wrapper returns sequences. Then it combines the two
  results: concatenation along the last axis for \<^verbatim>\<open>'concat'\<close>, the elementwise sum for
  \<^verbatim>\<open>'sum'\<close>, the sum divided by two for \<^verbatim>\<open>'ave'\<close>, the elementwise product for
  \<^verbatim>\<open>'mul'\<close>, and the list of the two for \<^verbatim>\<open>None\<close>. This holds in every case where the
  truth test of \<^verbatim>\<open>return_sequences\<close> returns; where that test raises, the call raises
  the same error.
\<close>

theorem Bidirectional_call_merge:
  "(let Y = LayerCall (forward_layer w) X m;
        B = LayerCall (backward_layer w) X m;
        Y_rev = (if truthy (return_sequences w) then Reverse B 1 else B)
    in (case py_bool (return_sequences w) of
          Inl e \<Rightarrow> Bidirectional_call w X m = Inl e
        | Inr seqs \<Rightarrow>
            (merge_mode w = PStr ''concat'' \<longrightarrow>
               Bidirectional_call w X m = Inr (Some (Tensor (Concatenate [Y, Y_rev] (- 1)))))
          \<and> (merge_mode w = PStr ''sum'' \<longrightarrow>
               Bidirectional_call w X m = Inr (Some (Tensor (Add Y Y_rev))))
          \<and> (merge_mode w = PStr ''ave'' \<longrightarrow>
               Bidirectional_call w X m = Inr (Some (Tensor (Div (Add Y Y_rev) 2))))
          \<and> (merge_mode w = PStr ''mul'' \<longrightarrow>
               Bidirectional_call w X m = Inr (Some (Tensor (Mul Y Y_rev))))
          \<and> (merge_mode w = PNone \<longrightarrow>
               Bidirectional_call w X m = Inr (Some (Tensors [Y, Y_rev])))))"
proof (cases "py_bool (return_sequences w)")
  case (Inl e)
  then show ?thesis by (simp add: Bidirectional_call_def Let_def)
next
  case (Inr seqs)
  with py_bool_Inr [OF Inr] show ?thesis
    by (simp add: Bidirectional_call_def K_concatenate_default_def Let_def)
qed

theorem Bidirectional_call_merge_witness:
  "Bidirectional_call (example_bidirectional (PStr ''concat'') (PBool True)) (Var ''X'') None
     = Inr (Some (Tensor (Concatenate [LayerCall 0 (Var ''X'') None,
                                       Reverse (LayerCall 1 (Var ''X'') None) 1] (- 1))))
   \<and> Bidirectional_call (example_bidirectional (PStr ''sum'') (PBool False)) (Var ''X'') None
     = Inr (Some (Tensor (Add (LayerCall 0 (Var ''X'') None) (LayerCall 1 (Var ''X'') None))))
   \<and> Bidirectional_call (example_bidirectional (PStr ''ave'') (PBool True)) (Var ''X'') None
     = Inr (Some (Tensor (Div (Add (LayerCall 0 (Var ''X'') None)
                                   (Reverse (LayerCall 1 (Var ''X'') None) 1)) 2)))
   \<and> Bidirectional_call (example_bidirectional (PStr ''mul'') (PBool True)) (Var ''X'') None
     = Inr (Some (Tensor (Mul (LayerCall 0 (Var ''X'') None)
                              (Reverse (LayerCall 1 (Var ''X'') None) 1))))
   \<and> Bidirectional_call (example_bidirectional PNone (PBool True)) (Var ''X'') None
     = Inr (Some (Tensors [LayerCall 0 (Var ''X'') None,
                           Reverse (LayerCall 1 (Var ''X'') None) 1]))"
  using Bidirectional_call_merge
          [of "example_bidirectional (PStr ''concat'') (PBool True)" "Var ''X''" None]
        Bidirectional_call_merge
          [of "example_bidirectional (PStr ''sum'') (PBool False)" "Var ''X''" None]
        Bidirectional_call_merge
          [of "example_bidirectional (PStr ''ave'') (PBool True)" "Var ''X''" None]
        Bidirectional_call_merge
          [of "example_bidirectional (PStr ''mul'') (PBool True)" "Var ''X''" None]
        Bidirectional_call_merge
          [of "example_bidirectional PNone (PBool True)" "Var ''X''" None]
  by (simp add: example_bidirectional_def Let_def)

subsection \<open>The sequence length under TensorFlow\<close>

text \<open>
  The test of the sequence length in \<^verbatim>\<open>TimeDistributed.get_output\<close>, on a base class
  that would provide \<^verbatim>\<open>get_input\<close> and \<^verbatim>\<open>get_input_mask\<close>: with the backend
  \<^verbatim>\<open>tensorflow\<close> and a declared input shape whose size at axis 1 is unknown, the method
  raises the error that tells the user to declare the number of timesteps, and the
  inner layer is not built; with a known non-zero size, or with another backend, it
  raises nothing. The test is \<^verbatim>\<open>not input_shape[1]\<close>, so a size of zero is refused like
  an unknown one.
\<close>

lemma TimeDistributed_get_output_test:
  assumes "get_input train = Inr X" and "get_input_mask train = Inr mk"
    and "td_input_spec w = s # rest" and "2 \<le> length s"
  shows "backend = ''tensorflow'' \<Longrightarrow> s ! 1 = None \<Longrightarrow>
           TimeDistributed_get_output backend get_input get_input_mask bld h w train
             = ((h, w\<lparr>td_input_spec := [s]\<rparr>), Inl (Exception timesteps_msg))"
    and "backend = ''tensorflow'' \<Longrightarrow> s ! 1 = Some 0 \<Longrightarrow>
           TimeDistributed_get_output backend get_input get_input_mask bld h w train
             = ((h, w\<lparr>td_input_spec := [s]\<rparr>), Inl (Exception timesteps_msg))"
    and "s ! 1 = Some n \<Longrightarrow> n \<noteq> 0 \<Longrightarrow>
           snd (TimeDistributed_get_output backend get_input get_input_mask bld h w train)
             = Inr ()"
    and "backend \<noteq> ''tensorflow'' \<Longrightarrow>
           snd (TimeDistributed_get_output backend get_input get_input_mask bld h w train)
             = Inr ()"
proof -
  from assms(4) obtain d ds where s: "s = d # ds" by (cases s) auto
  from assms(4) have i1: "item s 1 = Inr (s ! 1)" by (simp add: item_def)
  note defs = TimeDistributed_get_output_def item_def not_dim_def child_shape_def Let_def
  show "backend = ''tensorflow'' \<Longrightarrow> s ! 1 = None \<Longrightarrow>
           TimeDistributed_get_output backend get_input get_input_mask bld h w train
             = ((h, w\<lparr>td_input_spec := [s]\<rparr>), Inl (Exception timesteps_msg))"
    using assms(1-3) i1 by (simp add: defs)
  show "backend = ''tensorflow'' \<Longrightarrow> s ! 1 = Some 0 \<Longrightarrow>
           TimeDistributed_get_output backend get_input get_input_mask bld h w train
             = ((h, w\<lparr>td_input_spec := [s]\<rparr>), Inl (Exception timesteps_msg))"
    using assms(1-3) i1 by (simp add: defs)
  show "s ! 1 = Some n \<Longrightarrow> n \<noteq> 0 \<Longrightarrow>
           snd (TimeDistributed_get_output backend get_input get_input_mask bld h w train)
             = Inr ()"
    using assms(1-3) i1 by (simp add: defs s)
  show "backend \<noteq> ''tensorflow'' \<Longrightarrow>
           snd (TimeDistributed_get_output backend get_input get_input_mask bld h w train)
             = Inr ()"
    using assms(1-3) i1 by (simp add: defs s)
qed

text \<open>
  On the base class as it is, \<^verbatim>\<open>get_output\<close> never reaches that test: its first
  statement raises. \<^verbatim>\<open>TimeDistributed.build\<close>, the method that runs when the wrapper is
  connected to its input, accepts every shape of rank 3 at least, whatever its size at
  axis 1 and whatever the backend.
\<close>

lemma TimeDistributed_get_output_raises:
  "TimeDistributed_get_output backend Layer_get_input Layer_get_input_mask bld h w train
     = ((h, w), Inl (AttributeError ''get_input''))"
  by (simp add: TimeDistributed_get_output_def Layer_get_input_def)

lemma TimeDistributed_build_accepts:
  assumes "3 \<le> length s"
  shows "snd (TimeDistributed_build bld h w (Shape s)) = Inr ()"
    and "td_input_spec (snd (fst (TimeDistributed_build bld h w (Shape s)))) = [s]"
proof -
  from assms obtain d ds where s: "s = d # ds" by (cases s) auto
  show "snd (TimeDistributed_build bld h w (Shape s)) = Inr ()"
    using assms by (simp add: TimeDistributed_build_def child_shape_def s Let_def)
  show "td_input_spec (snd (fst (TimeDistributed_build bld h w (Shape s)))) = [s]"
    using assms
    by (simp add: TimeDistributed_build_def child_shape_def s Let_def Wrapper_build_def)
qed

text \<open>
  Claim C9 at the wrapper around the dense layer, with the input shape
  \<^verbatim>\<open>(None, None, 16)\<close> and the backend \<^verbatim>\<open>tensorflow\<close>. The claim expects the error about
  the sequence length. \<^verbatim>\<open>build\<close> accepts the shape and declares it, and \<^verbatim>\<open>get_output\<close>,
  the one method that holds the test, raises \<^verbatim>\<open>AttributeError\<close> at its first statement
  and leaves the store and the wrapper as they were.
\<close>

theorem TimeDistributed_unknown_timesteps_not_refused:
  "snd (TimeDistributed_build dense_build [dense_layer] example_time_distributed
          (Shape [None, None, Some 16])) = Inr ()
   \<and> td_input_spec (snd (fst (TimeDistributed_build dense_build [dense_layer]
          example_time_distributed (Shape [None, None, Some 16])))) = [[None, None, Some 16]]
   \<and> TimeDistributed_get_output ''tensorflow'' Layer_get_input Layer_get_input_mask
          dense_build [dense_layer] (example_spec None) False
        = (([dense_layer], example_spec None), Inl (AttributeError ''get_input''))
   \<and> Inl (AttributeError ''get_input'') \<noteq> (Inl (Exception timesteps_msg) :: py_error + unit)"
  by (simp add: TimeDistributed_build_accepts TimeDistributed_get_output_raises)

subsection \<open>Masks of TimeDistributed\<close>

text \<open>
  What \<^verbatim>\<open>TimeDistributed.compute_mask\<close> does with one mask, with a list of absent
  masks, and with a list where one mask is present.
\<close>

lemma TimeDistributed_compute_mask_single:
  "TimeDistributed_compute_mask (Mask m) = Inr m"
  by (simp add: TimeDistributed_compute_mask_def)

lemma TimeDistributed_compute_mask_all_absent:
  "\<forall>m\<in>set ms. m = None \<Longrightarrow> TimeDistributed_compute_mask (Masks ms) = Inr None"
  by (auto simp: TimeDistributed_compute_mask_def list_ex_iff)

lemma TimeDistributed_compute_mask_one_present:
  "filter (\<lambda>m. m \<noteq> None) ms = [Some t] \<Longrightarrow> TimeDistributed_compute_mask (Masks ms) = Inr (Some t)"
proof -
  assume f: "filter (\<lambda>m. m \<noteq> None) ms = [Some t]"
  then have "Some t \<in> set (filter (\<lambda>m. m \<noteq> None) ms)" by simp
  then have "list_ex (\<lambda>m. m \<noteq> None) ms" by (auto simp: list_ex_iff)
  with f show ?thesis by (simp add: TimeDistributed_compute_mask_def)
qed

text \<open>
  Claim C6 at a list of two present masks over two samples and two timesteps. The
  method joins the masks along the last axis and multiplies along axis 0, the axis of
  the samples: the result is a vector of four entries, whereas the elementwise AND of
  the two masks is again a mask over two samples and two timesteps. With an absent mask
  beside the two, the whole list, the \<^verbatim>\<open>None\<close> included, goes to \<^verbatim>\<open>K.concatenate\<close>.
\<close>

theorem TimeDistributed_compute_mask_two_present:
  "TimeDistributed_compute_mask
      (Masks [Some (Matrix [[1, 1], [1, 0]]), Some (Matrix [[1, 1], [0, 0]])])
     = Inr (Some (Vector [1, 0, 0, 0]))
   \<and> spec_combined_mask [[[1, 1], [1, 0]], [[1, 1], [0, 0]]] = [[1, 1], [0, 0]]
   \<and> TimeDistributed_compute_mask
      (Masks [None, Some (Matrix [[1, 1], [1, 0]]), Some (Matrix [[1, 1], [0, 0]])])
     = Inl (Exception ''concatenate'')"
  by (simp add: TimeDistributed_compute_mask_def K_concatenate_def spec_combined_mask_def
        mask_and_def upt_rec)

subsection \<open>Configurations written and read back\<close>

text \<open>
  For \<^verbatim>\<open>TimeDistributed\<close> the inner layer read back has the configuration of the
  original. For \<^verbatim>\<open>Bidirectional\<close> the merge mode and the constructor arguments of the
  inner layer come back, but the constructor runs again on the layer read back and
  prefixes its name once more.
\<close>

lemma TimeDistributed_config_roundtrip:
  assumes "TimeDistributed_from_config ulp h (TimeDistributed_get_config h w) = (h', w')"
  shows "Layer_get_config (h' ! td_layer w') = Layer_get_config (h ! td_layer w)"
    and "class_name (h' ! td_layer w') = class_name (h ! td_layer w)"
  using assms
  by (auto simp: TimeDistributed_from_config_def TimeDistributed_get_config_def
        Wrapper_get_config_def layer_from_config_def TimeDistributed_init_def
        Layer_from_config_def Layer_get_config_def)

lemma Bidirectional_config_roundtrip:
  assumes l: "l < length h"
    and i: "Bidirectional_init ulp h l mode ws kw = (h1, Inr w1)"
    and kw: "kw ''weights'' = None"
    and r: "Bidirectional_from_config ulp h1 (Bidirectional_get_config h1 w1) = (h2, Inr w2)"
  shows "merge_mode w2 = merge_mode w1"
    and "cfg_params (Layer_get_config (h2 ! bi_layer w2))
           = cfg_params (Layer_get_config (h1 ! bi_layer w1))"
    and "cfg_name (Layer_get_config (h2 ! bi_layer w2))
           = ''forward_'' @ cfg_name (Layer_get_config (h1 ! bi_layer w1))"
proof -
  from Bidirectional_init_Inr [OF i l] obtain gb where
    siw: "set_initial_weights (renamed_store h l gb) l (length h) ws = (h1, Inr ())"
    and w1: "bi_layer w1 = l" "merge_mode w1 = mode" "bi_base_config w1 = kw"
    by blast
  have len1: "length h1 = Suc (length h)"
    using set_initial_weights_frame(1) [OF siw] renamed_store_facts(1) [OF l] by simp
  let ?c = "Bidirectional_get_config h1 w1"
  let ?g = "h1 @ [Layer_from_config (wc_class_name ?c) (wc_config ?c)]"
  have r': "Bidirectional_init ulp ?g (length h1) mode PNone
              ((wc_rest ?c)(''merge_mode'' := None, ''weights'' := None)) = (h2, Inr w2)"
    using r kw
    by (simp add: Bidirectional_from_config_def layer_from_config_def
          Bidirectional_get_config_def Wrapper_get_config_def w1 Let_def)
  have l2: "length h1 < length ?g" by simp
  from Bidirectional_init_Inr [OF r' l2] obtain gb' where
    siw2: "set_initial_weights (renamed_store ?g (length h1) gb') (length h1) (length ?g) PNone
             = (h2, Inr ())"
    and w2: "bi_layer w2 = length h1" "merge_mode w2 = mode"
    by blast
  have h2: "h2 = renamed_store ?g (length h1) gb'"
    using siw2 by (simp add: set_initial_weights_def)
  have new: "h2 ! length h1 = (?g ! length h1)\<lparr>name := ''forward_'' @ name (?g ! length h1)\<rparr>"
    unfolding h2 using renamed_store_facts(2) [OF l2] .
  show "merge_mode w2 = merge_mode w1" by (simp add: w1 w2)
  show "cfg_params (Layer_get_config (h2 ! bi_layer w2))
           = cfg_params (Layer_get_config (h1 ! bi_layer w1))"
    by (simp add: w1 w2 new Layer_get_config_def Layer_from_config_def
          Bidirectional_get_config_def Wrapper_get_config_def Let_def)
  show "cfg_name (Layer_get_config (h2 ! bi_layer w2))
           = ''forward_'' @ cfg_name (Layer_get_config (h1 ! bi_layer w1))"
    by (simp add: w1 w2 new Layer_get_config_def Layer_from_config_def
          Bidirectional_get_config_def Wrapper_get_config_def Let_def)
qed

lemma example_roundtrip_succeeds:
  "snd example_roundtrip = Inr (projr (snd example_roundtrip))"
proof -
  let ?h1 = "fst (example_init (PStr ''concat'') PNone)"
  let ?w1 = "projr (snd (example_init (PStr ''concat'') PNone))"
  let ?c = "Bidirectional_get_config ?h1 ?w1"
  let ?g = "?h1 @ [Layer_from_config (wc_class_name ?c) (wc_config ?c)]"
  have e: "example_roundtrip = Bidirectional_init no_learning_phase ?g (length ?h1)
              (PStr ''concat'') PNone
              Map.empty"
    by (simp add: example_roundtrip_def example_init_value Bidirectional_from_config_def
          layer_from_config_def Bidirectional_get_config_def Wrapper_get_config_def Let_def
          fun_eq_iff)
  have l: "length ?h1 < length ?g" by simp
  have gb: "params (?g ! length ?h1) ''go_backwards'' = Some (PBool False)"
    by (simp add: example_init_value Bidirectional_get_config_def Wrapper_get_config_def
          Layer_from_config_def Layer_get_config_def recurrent_layer_def)
  have m: "PStr ''concat'' \<in> {PStr ''sum'', PStr ''mul'', PStr ''ave'', PStr ''concat'', PNone}"
    by simp
  have g: "py_bool (PBool False) = Inr False" by simp
  show ?thesis
    unfolding e Bidirectional_init_unfold [OF l m gb g]
    by (simp add: set_initial_weights_def renamed_store_def backward_config_def
          example_init_value Bidirectional_get_config_def Wrapper_get_config_def
          Layer_from_config_def Layer_get_config_def recurrent_layer_def getattr_def)
qed

text \<open>
  Claim C3 at the wrapper around \<^verbatim>\<open>lstm_1\<close>: the configuration of its inner layer has
  the name \<^verbatim>\<open>forward_lstm_1\<close>, and the inner layer of the wrapper read back from
  \<^verbatim>\<open>get_config\<close> has the name \<^verbatim>\<open>forward_forward_lstm_1\<close>.
\<close>

theorem Bidirectional_config_roundtrip_name:
  "snd (example_init (PStr ''concat'') PNone)
     = Inr (projr (snd (example_init (PStr ''concat'') PNone)))
   \<and> cfg_name (wc_config (Bidirectional_get_config
                  (fst (example_init (PStr ''concat'') PNone))
                  (projr (snd (example_init (PStr ''concat'') PNone)))))
       = ''forward_lstm_1''
   \<and> snd example_roundtrip = Inr (projr (snd example_roundtrip))
   \<and> cfg_name (wc_config (Bidirectional_get_config
                  (fst example_roundtrip) (projr (snd example_roundtrip))))
       = ''forward_forward_lstm_1''"
proof -
  let ?i = "example_init (PStr ''concat'') PNone"
  have l: "0 < length example_store" by (simp add: example_store_def)
  have i: "Bidirectional_init no_learning_phase example_store 0 (PStr ''concat'') PNone Map.empty
             = (fst ?i, Inr (projr (snd ?i)))"
    using example_init_value [of "PStr ''concat''" PNone] by (simp add: example_init_def)
  have r: "Bidirectional_from_config no_learning_phase (fst ?i)
             (Bidirectional_get_config (fst ?i) (projr (snd ?i)))
           = (fst example_roundtrip, Inr (projr (snd example_roundtrip)))"
    using example_roundtrip_succeeds
    by (simp add: example_roundtrip_def example_init_value prod_eq_iff)
  have a: "cfg_name (Layer_get_config (fst ?i ! bi_layer (projr (snd ?i)))) = ''forward_lstm_1''"
    by (simp add: example_init_value Layer_get_config_def recurrent_layer_def)
  have b: "cfg_name (Layer_get_config
             (fst example_roundtrip ! bi_layer (projr (snd example_roundtrip))))
           = ''forward_forward_lstm_1''"
    using Bidirectional_config_roundtrip(3) [OF l i _ r] a by simp
  have s: "snd ?i = Inr (projr (snd ?i))"
    by (simp add: example_init_value)
  show ?thesis
    using a b s example_roundtrip_succeeds
    by (simp add: Bidirectional_get_config_def Wrapper_get_config_def Let_def)
qed

end
